theory Spec2Isabelle
  imports Main "HOL-Library.Word"
begin

section \<open>Storage handles of nda (c++/nda/storage/handle.hpp)\<close>

text \<open>
  The five handle variants of \<^verbatim>\<open>nda::mem\<close> are embedded over one explicit machine state.
  The release configuration is modelled (\<^verbatim>\<open>NDA_DEBUG\<close> and \<^verbatim>\<open>NDA_DEBUG_LEAK_CHECK\<close>
  undefined), so the \<^verbatim>\<open>EXPECTS\<close> lines inside \<^verbatim>\<open>is_null\<close> and \<^verbatim>\<open>incref\<close> are not executed.

  \<^item> An address is an integer, \<open>0\<close> is \<^verbatim>\<open>nullptr\<close>; \<^verbatim>\<open>p + i\<close> on a \<^verbatim>\<open>T *\<close> advances by
    \<open>i * sizeof(T)\<close>.
  \<^item> \<^verbatim>\<open>size_t\<close> and \<^verbatim>\<open>long\<close> are 64-bit words; a conversion between them keeps the bits,
    \<open>unat\<close> reads a \<^verbatim>\<open>size_t\<close>, \<open>sint\<close> reads a \<^verbatim>\<open>long\<close>.
  \<^item> The element type \<^verbatim>\<open>T\<close> is the type variable \<open>'a\<close>; what the \<^verbatim>\<open>if constexpr\<close>
    branches ask about it is collected in a record of compile-time parameters.
  \<^item> Everything a handle does to the outside (allocator calls, element constructors and
    destructors, reference-count operations, the foreign release callback) is appended to a
    trace, in program order.
\<close>

type_synonym addr = int
type_synonym size_t = "64 word"
type_synonym long = "64 word"

record 'a tparams =
  sizeof_T :: nat
  is_trivial :: bool
  is_trivially_copyable :: bool
  is_complex :: bool
  init_dcmplx :: bool
  T_default :: 'a
  T_zero :: 'a

text \<open>
  The two ways a constructor ends the process instead of returning: the allocator cannot satisfy
  the request, or \<^verbatim>\<open>ASSERT(b.ptr != nullptr)\<close> fails.
\<close>

datatype error = Out_of_memory | Assertion_violated

datatype event =
    Allocate nat addr
  | Allocate_zero nat addr
  | Deallocate addr nat
  | Default_construct addr
  | Copy_construct addr addr
  | Memcpy addr addr nat
  | Destroy addr
  | Foreign_decref addr addr
  | Mtx_lock
  | Mtx_unlock
  | Rt_get nat
  | Rt_incref nat
  | Rt_decref nat

text \<open>
  \<^verbatim>\<open>handle_heap\<close>: the three private fields. Heap handles are kept in a store indexed by the
  address of the handle object, because \<^verbatim>\<open>_id\<close> is \<^verbatim>\<open>mutable\<close> and is written through
  \<^verbatim>\<open>const &\<close>, and because a borrowed handle keeps a pointer to its parent.
\<close>

record handle_heap =
  hh_data :: addr
  hh_size :: size_t
  hh_id :: nat

record 'a state =
  mem :: "addr \<Rightarrow> 'a option"
  live :: "(addr \<times> nat) list"
  limit :: addr
  refcounts :: "nat \<Rightarrow> int"
  last_id :: nat
  objs :: "nat \<Rightarrow> handle_heap"
  trace :: "event list"

definition emit :: "event \<Rightarrow> 'a state \<Rightarrow> 'a state" where
  "emit e st = st\<lparr>trace := trace st @ [e]\<rparr>"

text \<open>\<^verbatim>\<open>for (size_t i = 0; i < n; ++i) body(i)\<close>: the body runs for \<open>0, 1, \<dots>, n - 1\<close> in this order.\<close>

primrec for_n :: "nat \<Rightarrow> (nat \<Rightarrow> 's \<Rightarrow> 's) \<Rightarrow> 's \<Rightarrow> 's" where
  "for_n 0 body s = s"
| "for_n (Suc n) body s = body n (for_n n body s)"

definition elem :: "'a tparams \<Rightarrow> addr \<Rightarrow> nat \<Rightarrow> addr" where
  "elem tr p i = p + int i * int (sizeof_T tr)"

definition nbytes :: "'a tparams \<Rightarrow> size_t \<Rightarrow> nat" where
  "nbytes tr n = unat (n * word_of_nat (sizeof_T tr))"

subsection \<open>Elements\<close>

text \<open>
  \<open>mem st p = Some v\<close>: an object of type \<^verbatim>\<open>T\<close> with value \<open>v\<close> lives at \<open>p\<close>; \<open>None\<close>: no object
  (raw or destroyed storage). The copy constructor of \<^verbatim>\<open>T\<close> yields an equal value.
\<close>

definition default_construct :: "'a tparams \<Rightarrow> addr \<Rightarrow> 'a state \<Rightarrow> 'a state" where
  "default_construct tr p st = emit (Default_construct p) (st\<lparr>mem := (mem st)(p := Some (T_default tr))\<rparr>)"

definition copy_construct :: "addr \<Rightarrow> addr \<Rightarrow> 'a state \<Rightarrow> 'a state" where
  "copy_construct dst src st = emit (Copy_construct dst src) (st\<lparr>mem := (mem st)(dst := mem st src)\<rparr>)"

definition destroy :: "addr \<Rightarrow> 'a state \<Rightarrow> 'a state" where
  "destroy p st = emit (Destroy p) (st\<lparr>mem := (mem st)(p := None)\<rparr>)"

definition memcpy :: "addr \<Rightarrow> addr \<Rightarrow> nat \<Rightarrow> 'a state \<Rightarrow> 'a state" where
  "memcpy dst src n st =
     emit (Memcpy dst src n)
       (st\<lparr>mem := (\<lambda>a. if dst \<le> a \<and> a < dst + int n then mem st (src + (a - dst)) else mem st a)\<rparr>)"

subsection \<open>Allocator\<close>

text \<open>
  Modelled from the spec: the block descriptor \<^verbatim>\<open>blk_t\<close> and the allocators (blk.hpp and
  allocators.hpp are not part of the sources at hand). \<^verbatim>\<open>allocate\<close> returns uninitialized
  memory and fails fatally when the request cannot be satisfied; \<^verbatim>\<open>allocate_zero\<close> is the
  zero-filled variant; \<^verbatim>\<open>deallocate\<close> gives the block back. A new block is placed above every
  block that is still live, inside an arena that ends at \<open>limit\<close>.
\<close>

record blk_t =
  ptr :: addr
  byte_size :: nat

definition arena_top :: "(addr \<times> nat) list \<Rightarrow> addr" where
  "arena_top bs = foldr (\<lambda>b m. max (fst b + int (max (snd b) 1)) m) bs 1"

definition allocate :: "nat \<Rightarrow> 'a state \<Rightarrow> error + (blk_t \<times> 'a state)" where
  "allocate n st =
     (let p = arena_top (live st) in
      if limit st < p + int n then Inl Out_of_memory
      else Inr (\<lparr>ptr = p, byte_size = n\<rparr>, emit (Allocate n p) (st\<lparr>live := (p, n) # live st\<rparr>)))"

definition allocate_zero :: "'a \<Rightarrow> nat \<Rightarrow> 'a state \<Rightarrow> error + (blk_t \<times> 'a state)" where
  "allocate_zero z n st =
     (let p = arena_top (live st) in
      if limit st < p + int n then Inl Out_of_memory
      else Inr (\<lparr>ptr = p, byte_size = n\<rparr>,
                emit (Allocate_zero n p)
                  (st\<lparr>live := (p, n) # live st,
                      mem := (\<lambda>a. if p \<le> a \<and> a < p + int n then Some z else mem st a)\<rparr>)))"

definition deallocate :: "blk_t \<Rightarrow> 'a state \<Rightarrow> 'a state" where
  "deallocate b st = emit (Deallocate (ptr b) (byte_size b)) (st\<lparr>live := remove1 (ptr b, byte_size b) (live st)\<rparr>)"

subsection \<open>Reference-count table\<close>

text \<open>
  Modelled from the spec: \<^verbatim>\<open>globals::rtable\<close> (rtable.hpp is not part of the sources at
  hand). \<^verbatim>\<open>get\<close> allocates a fresh id with count 1, and id 0 is reserved; \<^verbatim>\<open>incref\<close>
  increments; \<^verbatim>\<open>decref\<close> decrements and returns true iff this decrement made the count reach
  zero; \<^verbatim>\<open>refcounts()[id]\<close> reads the count.
\<close>

definition rtable_get :: "'a state \<Rightarrow> nat \<times> 'a state" where
  "rtable_get st =
     (let i = Suc (last_id st)
      in (i, emit (Rt_get i) (st\<lparr>refcounts := (refcounts st)(i := 1), last_id := i\<rparr>)))"

definition rtable_incref :: "nat \<Rightarrow> 'a state \<Rightarrow> 'a state" where
  "rtable_incref i st = emit (Rt_incref i) (st\<lparr>refcounts := (refcounts st)(i := refcounts st i + 1)\<rparr>)"

definition rtable_decref :: "nat \<Rightarrow> 'a state \<Rightarrow> bool \<times> 'a state" where
  "rtable_decref i st =
     (refcounts st i - 1 = 0,
      emit (Rt_decref i) (st\<lparr>refcounts := (refcounts st)(i := refcounts st i - 1)\<rparr>))"

subsection \<open>Heap handle\<close>

definition handle_heap_default :: handle_heap where
  "handle_heap_default = \<lparr>hh_data = 0, hh_size = 0, hh_id = 0\<rparr>"

definition handle_heap_is_null :: "handle_heap \<Rightarrow> bool" where
  "handle_heap_is_null h = (hh_data h = 0)"

definition handle_heap_size :: "handle_heap \<Rightarrow> long" where
  "handle_heap_size h = hh_size h"

definition handle_heap_data :: "handle_heap \<Rightarrow> addr" where
  "handle_heap_data h = hh_data h"

definition has_shared_memory :: "handle_heap \<Rightarrow> bool" where
  "has_shared_memory h = (hh_id h \<noteq> 0)"

definition set_obj :: "nat \<Rightarrow> handle_heap \<Rightarrow> 'a state \<Rightarrow> 'a state" where
  "set_obj this h st = st\<lparr>objs := (objs st)(this := h)\<rparr>"

text \<open>\<^verbatim>\<open>handle_heap(long size, do_not_initialize_t)\<close>, constructing the object at \<open>this\<close>.\<close>

definition handle_heap_uninit :: "'a tparams \<Rightarrow> nat \<Rightarrow> long \<Rightarrow> 'a state \<Rightarrow> error + 'a state" where
  "handle_heap_uninit tr this n st =
     (let st0 = set_obj this handle_heap_default st in
      if n = 0 then Inr st0
      else case allocate (nbytes tr n) st0 of
             Inl e \<Rightarrow> Inl e
           | Inr (b, st1) \<Rightarrow>
               if ptr b = 0 then Inl Assertion_violated
               else Inr (set_obj this \<lparr>hh_data = ptr b, hh_size = n, hh_id = 0\<rparr> st1))"

text \<open>\<^verbatim>\<open>handle_heap(long size)\<close>.\<close>

definition handle_heap_ctor :: "'a tparams \<Rightarrow> nat \<Rightarrow> long \<Rightarrow> 'a state \<Rightarrow> error + 'a state" where
  "handle_heap_ctor tr this n st =
     (let st0 = set_obj this handle_heap_default st in
      if n = 0 then Inr st0
      else case (if is_complex tr \<and> init_dcmplx tr then allocate_zero (T_zero tr) (nbytes tr n) st0
                 else allocate (nbytes tr n) st0) of
             Inl e \<Rightarrow> Inl e
           | Inr (b, st1) \<Rightarrow>
               if ptr b = 0 then Inl Assertion_violated
               else let st2 = set_obj this \<lparr>hh_data = ptr b, hh_size = n, hh_id = 0\<rparr> st1
                    in Inr (if \<not> is_trivial tr \<and> \<not> is_complex tr
                            then for_n (unat n) (\<lambda>i. default_construct tr (elem tr (ptr b) i)) st2
                            else st2))"

text \<open>
  The two steps that end \<^verbatim>\<open>handle_heap::decref\<close> and \<^verbatim>\<open>handle_shared::decref\<close>: the
  destructor loop (\<^verbatim>\<open>if constexpr (!std::is_trivial_v<T>)\<close>) and the deallocation of the block
  \<^verbatim>\<open>{(char *)_data, _size * sizeof(T)}\<close>.
\<close>

definition destroy_elements :: "'a tparams \<Rightarrow> addr \<Rightarrow> size_t \<Rightarrow> 'a state \<Rightarrow> 'a state" where
  "destroy_elements tr p n st =
     (if \<not> is_trivial tr then for_n (unat n) (\<lambda>i. destroy (elem tr p i)) st else st)"

definition deallocate_block :: "'a tparams \<Rightarrow> addr \<Rightarrow> size_t \<Rightarrow> 'a state \<Rightarrow> 'a state" where
  "deallocate_block tr p n st = deallocate \<lparr>ptr = p, byte_size = nbytes tr n\<rparr> st"

text \<open>\<^verbatim>\<open>handle_heap::decref\<close>, which is all the destructor does.\<close>

definition handle_heap_decref :: "'a tparams \<Rightarrow> nat \<Rightarrow> 'a state \<Rightarrow> 'a state" where
  "handle_heap_decref tr this st =
     (let h = objs st this in
      if handle_heap_is_null h then st
      else case (if has_shared_memory h
                 then (case rtable_decref (hh_id h) st of (r, st1) \<Rightarrow> (\<not> r, st1))
                 else (False, st)) of
             (still_held, st1) \<Rightarrow>
               if still_held then st1
               else deallocate_block tr (hh_data h) (hh_size h)
                      (destroy_elements tr (hh_data h) (hh_size h) st1))"

text \<open>
  The body shared by the two cloning constructors, after the delegation to
  \<^verbatim>\<open>handle_heap(x.size(), do_not_initialize)\<close>: \<open>xdata\<close> and \<open>xsize\<close> are \<^verbatim>\<open>x.data()\<close> and
  \<^verbatim>\<open>x.size()\<close>.
\<close>

definition clone_into :: "'a tparams \<Rightarrow> nat \<Rightarrow> addr \<Rightarrow> long \<Rightarrow> 'a state \<Rightarrow> 'a state" where
  "clone_into tr this xdata xsize st =
     (let h = objs st this in
      if handle_heap_is_null h then st
      else if is_trivially_copyable tr then memcpy (hh_data h) xdata (nbytes tr xsize) st
      else for_n (unat (hh_size h)) (\<lambda>i. copy_construct (elem tr (hh_data h) i) (elem tr xdata i)) st)"

text \<open>\<^verbatim>\<open>handle_heap(handle_heap const &x)\<close>; \<open>xr\<close> is the address of \<open>x\<close>.\<close>

definition handle_heap_copy :: "'a tparams \<Rightarrow> nat \<Rightarrow> nat \<Rightarrow> 'a state \<Rightarrow> error + 'a state" where
  "handle_heap_copy tr this xr st =
     (let x = objs st xr in
      case handle_heap_uninit tr this (handle_heap_size x) st of
        Inl e \<Rightarrow> Inl e
      | Inr st1 \<Rightarrow> Inr (clone_into tr this (handle_heap_data x) (handle_heap_size x) st1))"

subsection \<open>Stack handle\<close>

text \<open>
  \<^verbatim>\<open>handle_stack<T, Size>\<close>: the only field is the inline buffer; the record keeps its address.
  \<open>N\<close> is the template parameter \<^verbatim>\<open>Size\<close>.
\<close>

record handle_stack =
  stk_buffer :: addr

definition handle_stack_data :: "handle_stack \<Rightarrow> addr" where
  "handle_stack_data h = stk_buffer h"

definition handle_stack_is_null :: "handle_stack \<Rightarrow> bool" where
  "handle_stack_is_null h = False"

definition handle_stack_size :: "size_t \<Rightarrow> handle_stack \<Rightarrow> long" where
  "handle_stack_size N h = N"

text \<open>\<^verbatim>\<open>handle_stack(long /*size*/)\<close>, for the object whose buffer is at \<open>buf\<close>.\<close>

definition handle_stack_ctor :: "'a tparams \<Rightarrow> size_t \<Rightarrow> addr \<Rightarrow> long \<Rightarrow> 'a state \<Rightarrow> handle_stack \<times> 'a state" where
  "handle_stack_ctor tr N buf n st =
     (\<lparr>stk_buffer = buf\<rparr>,
      if \<not> is_trivial tr \<and> \<not> is_complex tr
      then for_n (unat N) (\<lambda>i. default_construct tr (elem tr buf i)) st
      else st)"

subsection \<open>SSO handle\<close>

text \<open>
  \<^verbatim>\<open>handle_sso<T, Size>\<close>: the inline buffer (its address), \<^verbatim>\<open>_data\<close> and \<^verbatim>\<open>_size\<close>.
  \<open>N\<close> is the template parameter \<^verbatim>\<open>Size\<close>, which the class asserts to be positive.
\<close>

record handle_sso =
  sso_buffer :: addr
  sso_data :: addr
  sso_size :: size_t

definition handle_sso_default :: "addr \<Rightarrow> handle_sso" where
  "handle_sso_default buf = \<lparr>sso_buffer = buf, sso_data = 0, sso_size = 0\<rparr>"

definition on_heap :: "size_t \<Rightarrow> handle_sso \<Rightarrow> bool" where
  "on_heap N h = (N < sso_size h)"

definition handle_sso_is_null :: "handle_sso \<Rightarrow> bool" where
  "handle_sso_is_null h = (sso_data h = 0)"

definition handle_sso_data :: "handle_sso \<Rightarrow> addr" where
  "handle_sso_data h = sso_data h"

definition handle_sso_size :: "handle_sso \<Rightarrow> long" where
  "handle_sso_size h = sso_size h"

text \<open>\<^verbatim>\<open>handle_sso(long size, do_not_initialize_t)\<close>.\<close>

definition handle_sso_uninit :: "'a tparams \<Rightarrow> size_t \<Rightarrow> addr \<Rightarrow> long \<Rightarrow> 'a state \<Rightarrow> error + (handle_sso \<times> 'a state)" where
  "handle_sso_uninit tr N buf n st =
     (let h0 = handle_sso_default buf in
      if n = 0 then Inr (h0, st)
      else let h1 = h0\<lparr>sso_size := n\<rparr> in
           if \<not> on_heap N h1 then Inr (h1\<lparr>sso_data := sso_buffer h1\<rparr>, st)
           else case allocate (nbytes tr n) st of
                  Inl e \<Rightarrow> Inl e
                | Inr (b, st1) \<Rightarrow>
                    if ptr b = 0 then Inl Assertion_violated
                    else Inr (h1\<lparr>sso_data := ptr b\<rparr>, st1))"

text \<open>\<^verbatim>\<open>handle_sso(long size)\<close>.\<close>

definition handle_sso_ctor :: "'a tparams \<Rightarrow> size_t \<Rightarrow> addr \<Rightarrow> long \<Rightarrow> 'a state \<Rightarrow> error + (handle_sso \<times> 'a state)" where
  "handle_sso_ctor tr N buf n st =
     (let h0 = handle_sso_default buf in
      if n = 0 then Inr (h0, st)
      else let h1 = h0\<lparr>sso_size := n\<rparr> in
           case (if \<not> on_heap N h1 then Inr (h1\<lparr>sso_data := sso_buffer h1, sso_size := n\<rparr>, st)
                 else case (if is_complex tr \<and> init_dcmplx tr
                            then allocate_zero (T_zero tr) (nbytes tr n) st
                            else allocate (nbytes tr n) st) of
                        Inl e \<Rightarrow> Inl e
                      | Inr (b, st1) \<Rightarrow>
                          if ptr b = 0 then Inl Assertion_violated
                          else Inr (h1\<lparr>sso_data := ptr b, sso_size := n\<rparr>, st1)) of
             Inl e \<Rightarrow> Inl e
           | Inr (h2, st2) \<Rightarrow>
               Inr (h2, if \<not> is_trivial tr \<and> \<not> is_complex tr
                        then for_n (unat n) (\<lambda>i. default_construct tr (elem tr (sso_data h2) i)) st2
                        else st2))"

text \<open>\<^verbatim>\<open>handle_sso::clean\<close>, which is all the destructor does. It returns the handle as it leaves it.\<close>

definition clean :: "'a tparams \<Rightarrow> size_t \<Rightarrow> handle_sso \<Rightarrow> 'a state \<Rightarrow> handle_sso \<times> 'a state" where
  "clean tr N h st =
     (if handle_sso_is_null h then (h, st)
      else let st1 = (if \<not> is_trivial tr
                      then for_n (unat (sso_size h)) (\<lambda>i. destroy (elem tr (handle_sso_data h) i)) st
                      else st);
               st2 = (if on_heap N h
                      then deallocate \<lparr>ptr = sso_data h, byte_size = nbytes tr (sso_size h)\<rparr> st1
                      else st1)
           in (h\<lparr>sso_data := 0\<rparr>, st2))"

text \<open>
  What \<^verbatim>\<open>handle_sso(handle_sso &&x)\<close> and \<^verbatim>\<open>operator=(handle_sso &&x)\<close> do after the optional
  \<^verbatim>\<open>clean()\<close>: \<open>h\<close> is \<^verbatim>\<open>*this\<close>, and the result is the pair of \<^verbatim>\<open>*this\<close> and \<open>x\<close> afterwards.
  \<open>x\<close> is another object than \<^verbatim>\<open>*this\<close>.
\<close>

definition take_from :: "'a tparams \<Rightarrow> size_t \<Rightarrow> handle_sso \<Rightarrow> handle_sso \<Rightarrow> 'a state \<Rightarrow> (handle_sso \<times> handle_sso) \<times> 'a state" where
  "take_from tr N h x st =
     (let h1 = h\<lparr>sso_size := sso_size x\<rparr>;
          x' = x\<lparr>sso_data := 0, sso_size := 0\<rparr>
      in if on_heap N h1 then ((h1\<lparr>sso_data := sso_data x\<rparr>, x'), st)
         else if sso_size h1 \<noteq> 0
              then ((h1\<lparr>sso_data := sso_buffer h1\<rparr>, x'),
                    for_n (unat (sso_size h1))
                      (\<lambda>i. copy_construct (elem tr (sso_buffer h1) i) (elem tr (sso_data x) i)) st)
              else ((h1, x'), st))"

text \<open>\<^verbatim>\<open>handle_sso(handle_sso &&x)\<close>, for the new object whose buffer is at \<open>buf\<close>.\<close>

definition handle_sso_move :: "'a tparams \<Rightarrow> size_t \<Rightarrow> addr \<Rightarrow> handle_sso \<Rightarrow> 'a state \<Rightarrow> (handle_sso \<times> handle_sso) \<times> 'a state" where
  "handle_sso_move tr N buf x st = take_from tr N (handle_sso_default buf) x st"

text \<open>\<^verbatim>\<open>handle_sso::operator=(handle_sso &&x)\<close>.\<close>

definition handle_sso_move_assign :: "'a tparams \<Rightarrow> size_t \<Rightarrow> handle_sso \<Rightarrow> handle_sso \<Rightarrow> 'a state \<Rightarrow> (handle_sso \<times> handle_sso) \<times> 'a state" where
  "handle_sso_move_assign tr N this x st =
     (case clean tr N this st of (h, st1) \<Rightarrow> take_from tr N h x st1)"

text \<open>\<^verbatim>\<open>handle_sso(handle_sso const &x)\<close>, for the new object whose buffer is at \<open>buf\<close>.\<close>

definition handle_sso_copy :: "'a tparams \<Rightarrow> size_t \<Rightarrow> addr \<Rightarrow> handle_sso \<Rightarrow> 'a state \<Rightarrow> error + (handle_sso \<times> 'a state)" where
  "handle_sso_copy tr N buf x st =
     (case handle_sso_uninit tr N buf (handle_sso_size x) st of
        Inl e \<Rightarrow> Inl e
      | Inr (h, st1) \<Rightarrow>
          Inr (h, for_n (unat (sso_size h))
                    (\<lambda>i. copy_construct (elem tr (sso_data h) i) (elem tr (sso_data x) i)) st1))"

subsection \<open>Shared handle\<close>

record handle_shared =
  sh_data :: addr
  sh_size :: size_t
  sh_id :: nat
  sh_foreign_handle :: addr
  sh_foreign_decref :: addr

definition handle_shared_default :: handle_shared where
  "handle_shared_default =
     \<lparr>sh_data = 0, sh_size = 0, sh_id = 0, sh_foreign_handle = 0, sh_foreign_decref = 0\<rparr>"

definition handle_shared_is_null :: "handle_shared \<Rightarrow> bool" where
  "handle_shared_is_null h = (sh_data h = 0)"

definition handle_shared_data :: "handle_shared \<Rightarrow> addr" where
  "handle_shared_data h = sh_data h"

definition handle_shared_size :: "handle_shared \<Rightarrow> long" where
  "handle_shared_size h = sh_size h"

definition refcount :: "handle_shared \<Rightarrow> 'a state \<Rightarrow> int" where
  "refcount h st = refcounts st (sh_id h)"

text \<open>\<^verbatim>\<open>handle_shared::decref\<close>, which is all the destructor does.\<close>

definition handle_shared_decref :: "'a tparams \<Rightarrow> handle_shared \<Rightarrow> 'a state \<Rightarrow> 'a state" where
  "handle_shared_decref tr h st =
     (if handle_shared_is_null h then st
      else case rtable_decref (sh_id h) st of
             (r, st1) \<Rightarrow>
               if \<not> r then st1
               else if sh_foreign_handle h \<noteq> 0
                    then emit (Foreign_decref (sh_foreign_decref h) (sh_foreign_handle h)) st1
                    else deallocate_block tr (sh_data h) (sh_size h)
                           (destroy_elements tr (sh_data h) (sh_size h) st1))"

definition incref :: "handle_shared \<Rightarrow> 'a state \<Rightarrow> 'a state" where
  "incref h st = rtable_incref (sh_id h) st"

text \<open>What the debug build of \<^verbatim>\<open>incref\<close> expects of its handle: \<^verbatim>\<open>EXPECTS(!is_null())\<close>.\<close>

definition incref_expects :: "handle_shared \<Rightarrow> bool" where
  "incref_expects h = (\<not> handle_shared_is_null h)"

text \<open>\<^verbatim>\<open>handle_shared::_copy\<close>: the basic part of a copy, without reference counting.\<close>

definition basic_copy :: "handle_shared \<Rightarrow> handle_shared \<Rightarrow> handle_shared" where
  "basic_copy this x =
     this\<lparr>sh_data := sh_data x, sh_size := sh_size x, sh_id := sh_id x,
          sh_foreign_handle := sh_foreign_handle x, sh_foreign_decref := sh_foreign_decref x\<rparr>"

text \<open>\<^verbatim>\<open>handle_shared(handle_shared const &x)\<close>.\<close>

definition handle_shared_copy :: "handle_shared \<Rightarrow> 'a state \<Rightarrow> handle_shared \<times> 'a state" where
  "handle_shared_copy x st =
     (let h = basic_copy handle_shared_default x
      in (h, if \<not> handle_shared_is_null h then incref h st else st))"

text \<open>\<^verbatim>\<open>handle_shared::operator=(handle_shared const &x)\<close>; \<open>x\<close> is another object than \<^verbatim>\<open>*this\<close>.\<close>

definition handle_shared_copy_assign :: "'a tparams \<Rightarrow> handle_shared \<Rightarrow> handle_shared \<Rightarrow> 'a state \<Rightarrow> handle_shared \<times> 'a state" where
  "handle_shared_copy_assign tr this x st =
     (let st1 = handle_shared_decref tr this st;
          h = basic_copy this x
      in (h, incref h st1))"

text \<open>\<^verbatim>\<open>handle_shared(T *data, size_t size, void *foreign_handle, void *foreign_decref)\<close>.\<close>

definition handle_shared_foreign :: "addr \<Rightarrow> size_t \<Rightarrow> addr \<Rightarrow> addr \<Rightarrow> 'a state \<Rightarrow> handle_shared \<times> 'a state" where
  "handle_shared_foreign d n fh fd st =
     (let h = \<lparr>sh_data = d, sh_size = n, sh_id = 0, sh_foreign_handle = fh, sh_foreign_decref = fd\<rparr>
      in case rtable_get (emit Mtx_lock st) of
           (i, st1) \<Rightarrow> (h\<lparr>sh_id := i\<rparr>, emit Mtx_unlock st1))"

text \<open>
  \<^verbatim>\<open>handle_shared(handle_heap<T, void> const &x)\<close>; \<open>xr\<close> is the address of \<open>x\<close>, whose \<^verbatim>\<open>_id\<close>
  the constructor may write. The lock guard lives in the block of the outer \<^verbatim>\<open>if\<close>.
\<close>

definition handle_shared_from_heap :: "nat \<Rightarrow> 'a state \<Rightarrow> handle_shared \<times> 'a state" where
  "handle_shared_from_heap xr st =
     (let h = handle_shared_default\<lparr>sh_data := handle_heap_data (objs st xr),
                                    sh_size := handle_heap_size (objs st xr)\<rparr>
      in if handle_heap_is_null (objs st xr) then (h, st)
         else let st3 =
                    (if hh_id (objs st xr) = 0
                     then let st1 = emit Mtx_lock st;
                              st2 = (if hh_id (objs st1 xr) = 0
                                     then case rtable_get st1 of
                                            (i, s) \<Rightarrow> set_obj xr ((objs s xr)\<lparr>hh_id := i\<rparr>) s
                                     else st1)
                          in emit Mtx_unlock st2
                     else st);
                  h' = h\<lparr>sh_id := hh_id (objs st3 xr)\<rparr>
              in (h', incref h' st3))"

text \<open>\<^verbatim>\<open>handle_heap(handle_shared<T> const &x)\<close>.\<close>

definition handle_heap_copy_shared :: "'a tparams \<Rightarrow> nat \<Rightarrow> handle_shared \<Rightarrow> 'a state \<Rightarrow> error + 'a state" where
  "handle_heap_copy_shared tr this x st =
     (case handle_heap_uninit tr this (handle_shared_size x) st of
        Inl e \<Rightarrow> Inl e
      | Inr st1 \<Rightarrow> Inr (clone_into tr this (handle_shared_data x) (handle_shared_size x) st1))"

subsection \<open>Borrowed handle\<close>

text \<open>
  \<^verbatim>\<open>handle_borrowed<T>\<close>: \<^verbatim>\<open>_parent\<close> is \<open>None\<close> for \<^verbatim>\<open>nullptr\<close> and \<open>Some r\<close> for the address \<open>r\<close> of a
  \<^verbatim>\<open>handle_heap<T0, void>\<close>. One definition per constructor; the offset is a \<^verbatim>\<open>long\<close>.
\<close>

record handle_borrowed =
  hb_parent :: "nat option"
  hb_data :: addr

definition ptr_add :: "'a tparams \<Rightarrow> addr \<Rightarrow> long \<Rightarrow> addr" where
  "ptr_add tr p k = p + sint k * int (sizeof_T tr)"

definition handle_borrowed_default :: handle_borrowed where
  "handle_borrowed_default = \<lparr>hb_parent = None, hb_data = 0\<rparr>"

definition handle_borrowed_data :: "handle_borrowed \<Rightarrow> addr" where
  "handle_borrowed_data b = hb_data b"

definition parent :: "handle_borrowed \<Rightarrow> nat option" where
  "parent b = hb_parent b"

definition handle_borrowed_ptr :: "addr \<Rightarrow> handle_borrowed" where
  "handle_borrowed_ptr p = handle_borrowed_default\<lparr>hb_data := p\<rparr>"

text \<open>\<^verbatim>\<open>handle_borrowed(handle_borrowed<T> const &x) = default\<close>: member-wise copy.\<close>

definition handle_borrowed_copy :: "handle_borrowed \<Rightarrow> handle_borrowed" where
  "handle_borrowed_copy x = \<lparr>hb_parent = hb_parent x, hb_data = hb_data x\<rparr>"

text \<open>\<^verbatim>\<open>handle_borrowed(handle_borrowed<T> const &x, long offset)\<close>.\<close>

definition handle_borrowed_offset :: "'a tparams \<Rightarrow> handle_borrowed \<Rightarrow> long \<Rightarrow> handle_borrowed" where
  "handle_borrowed_offset tr x k = handle_borrowed_default\<lparr>hb_data := ptr_add tr (handle_borrowed_data x) k\<rparr>"

text \<open>\<^verbatim>\<open>handle_borrowed(handle_borrowed<T0> const &x, long offset = 0)\<close>, for a const \<^verbatim>\<open>T\<close>.\<close>

definition handle_borrowed_from_nonconst :: "'a tparams \<Rightarrow> handle_borrowed \<Rightarrow> long \<Rightarrow> handle_borrowed" where
  "handle_borrowed_from_nonconst tr x k = handle_borrowed_default\<lparr>hb_data := ptr_add tr (handle_borrowed_data x) k\<rparr>"

text \<open>
  \<^verbatim>\<open>handle_borrowed(handle_heap<T0, void> const &x, long offset = 0)\<close>; \<open>xr\<close> is the address of
  \<open>x\<close>. The state is returned as the constructor leaves it.
\<close>

definition handle_borrowed_from_heap :: "'a tparams \<Rightarrow> nat \<Rightarrow> long \<Rightarrow> 'a state \<Rightarrow> handle_borrowed \<times> 'a state" where
  "handle_borrowed_from_heap tr xr k st =
     (\<lparr>hb_parent = Some xr, hb_data = ptr_add tr (handle_heap_data (objs st xr)) k\<rparr>, st)"

text \<open>\<^verbatim>\<open>template <typename Alloc> handle_borrowed(handle_heap<T0, Alloc> const &x, long offset = 0)\<close>.\<close>

definition handle_borrowed_from_heap_alloc :: "'a tparams \<Rightarrow> nat \<Rightarrow> long \<Rightarrow> 'a state \<Rightarrow> handle_borrowed \<times> 'a state" where
  "handle_borrowed_from_heap_alloc tr xr k st =
     (\<lparr>hb_parent = None, hb_data = ptr_add tr (handle_heap_data (objs st xr)) k\<rparr>, st)"

definition handle_borrowed_from_shared :: "'a tparams \<Rightarrow> handle_shared \<Rightarrow> long \<Rightarrow> handle_borrowed" where
  "handle_borrowed_from_shared tr x k = handle_borrowed_default\<lparr>hb_data := ptr_add tr (handle_shared_data x) k\<rparr>"

definition handle_borrowed_from_stack :: "'a tparams \<Rightarrow> handle_stack \<Rightarrow> long \<Rightarrow> handle_borrowed" where
  "handle_borrowed_from_stack tr x k = handle_borrowed_default\<lparr>hb_data := ptr_add tr (handle_stack_data x) k\<rparr>"

definition handle_borrowed_from_sso :: "'a tparams \<Rightarrow> handle_sso \<Rightarrow> long \<Rightarrow> handle_borrowed" where
  "handle_borrowed_from_sso tr x k = handle_borrowed_default\<lparr>hb_data := ptr_add tr (handle_sso_data x) k\<rparr>"

subsection \<open>Reading a trace\<close>

text \<open>
  The kinds of events the properties speak about: calls into the allocator, operations on the
  reference-count table, element copies, element destructor calls, and the release of a block
  (deallocation or the foreign release callback).
\<close>

fun is_allocator_call :: "event \<Rightarrow> bool" where
  "is_allocator_call (Allocate n p) = True"
| "is_allocator_call (Allocate_zero n p) = True"
| "is_allocator_call (Deallocate p n) = True"
| "is_allocator_call e = False"

fun is_rtable_op :: "event \<Rightarrow> bool" where
  "is_rtable_op (Rt_get i) = True"
| "is_rtable_op (Rt_incref i) = True"
| "is_rtable_op (Rt_decref i) = True"
| "is_rtable_op e = False"

fun is_element_copy :: "event \<Rightarrow> bool" where
  "is_element_copy (Copy_construct d s) = True"
| "is_element_copy (Memcpy d s n) = True"
| "is_element_copy e = False"

fun is_destroy :: "event \<Rightarrow> bool" where
  "is_destroy (Destroy p) = True"
| "is_destroy e = False"

fun is_block_release :: "event \<Rightarrow> bool" where
  "is_block_release (Deallocate p n) = True"
| "is_block_release (Foreign_decref f h) = True"
| "is_block_release e = False"

text \<open>The events of the destructor loop over the \<open>n\<close> elements at \<open>p\<close>.\<close>

definition destroy_events :: "'a tparams \<Rightarrow> addr \<Rightarrow> size_t \<Rightarrow> event list" where
  "destroy_events tr p n =
     (if is_trivial tr then [] else map (\<lambda>i. Destroy (elem tr p i)) [0..<unat n])"

text \<open>The events of a loop that copy-constructs \<open>n\<close> elements from \<open>s\<close> to \<open>d\<close>.\<close>

definition copy_events :: "'a tparams \<Rightarrow> addr \<Rightarrow> addr \<Rightarrow> nat \<Rightarrow> event list" where
  "copy_events tr d s n = map (\<lambda>i. Copy_construct (elem tr d i) (elem tr s i)) [0..<n]"

text \<open>The events of \<^verbatim>\<open>clean()\<close> on the handle \<open>h\<close>.\<close>

definition clean_events :: "'a tparams \<Rightarrow> size_t \<Rightarrow> handle_sso \<Rightarrow> event list" where
  "clean_events tr N h =
     (if handle_sso_is_null h then []
      else destroy_events tr (sso_data h) (sso_size h)
           @ (if on_heap N h then [Deallocate (sso_data h) (nbytes tr (sso_size h))] else []))"

subsection \<open>Handles and their storage\<close>

text \<open>
  A handle with \<open>n\<close> elements at \<open>p\<close> owns a block: the block is live, and it holds the \<open>n\<close>
  elements (the byte count \<^verbatim>\<open>n * sizeof(T)\<close> did not wrap around).
\<close>

definition owns_block :: "'a tparams \<Rightarrow> addr \<Rightarrow> size_t \<Rightarrow> 'a state \<Rightarrow> bool" where
  "owns_block tr p n st =
     ((p, nbytes tr n) \<in> set (live st) \<and> uint n * int (sizeof_T tr) < 18446744073709551616)"

text \<open>Two byte ranges \<open>[p, p + m)\<close> and \<open>[q, q + n)\<close> that do not overlap.\<close>

definition separate :: "addr \<Rightarrow> nat \<Rightarrow> addr \<Rightarrow> nat \<Rightarrow> bool" where
  "separate p m q n = (p + int m \<le> q \<or> q + int n \<le> p)"

text \<open>
  Where a non-null SSO handle keeps its elements: in its own inline buffer (at most \<open>N\<close>
  elements), or in a block of the allocator (more than \<open>N\<close> elements).
\<close>

definition inline_resident :: "size_t \<Rightarrow> handle_sso \<Rightarrow> bool" where
  "inline_resident N x =
     (sso_size x \<noteq> 0 \<and> \<not> on_heap N x \<and> sso_data x = sso_buffer x \<and> sso_buffer x \<noteq> 0)"

definition heap_resident :: "'a tparams \<Rightarrow> size_t \<Rightarrow> handle_sso \<Rightarrow> 'a state \<Rightarrow> bool" where
  "heap_resident tr N x st =
     (on_heap N x \<and> sso_data x \<noteq> 0 \<and> owns_block tr (sso_data x) (sso_size x) st)"

text \<open>
  A buffer of \<open>n\<close> elements at \<open>p\<close> in foreign memory: it lies beyond the allocator's arena, and
  its byte count does not wrap around.
\<close>

definition foreign_block :: "'a tparams \<Rightarrow> addr \<Rightarrow> size_t \<Rightarrow> 'a state \<Rightarrow> bool" where
  "foreign_block tr p n st =
     (limit st < p \<and> uint n * int (sizeof_T tr) < 18446744073709551616)"

subsection \<open>Concrete inputs\<close>

text \<open>
  A non-trivial element type of eight bytes whose values are natural numbers, and an initial
  state: nothing allocated, an arena of a million bytes, an empty reference-count table, every
  heap handle object null.
\<close>

definition ex_tr :: "nat tparams" where
  "ex_tr = \<lparr>sizeof_T = 8, is_trivial = False, is_trivially_copyable = False, is_complex = False,
            init_dcmplx = False, T_default = 0, T_zero = 0\<rparr>"

definition ex_st :: "nat state" where
  "ex_st = \<lparr>mem = (\<lambda>a. None), live = [], limit = 1000000, refcounts = (\<lambda>i. 0), last_id = 0,
            objs = (\<lambda>r. handle_heap_default), trace = []\<rparr>"

text \<open>The state after a heap handle of three elements has been constructed at object 7.\<close>

definition ex_heap3 :: "nat state" where
  "ex_heap3 = projr (handle_heap_ctor ex_tr 7 3 ex_st)"

text \<open>The shared handle cross-constructed from that heap handle, and the state after it.\<close>

definition ex_S :: handle_shared where
  "ex_S = fst (handle_shared_from_heap 7 ex_heap3)"

definition ex_promoted :: "nat state" where
  "ex_promoted = snd (handle_shared_from_heap 7 ex_heap3)"

text \<open>
  SSO handles of inline capacity 4 and 2 with three elements each, the first in its inline
  buffer at 4096, the second on the heap, and the states after their construction.
\<close>

definition ex_inline :: handle_sso where
  "ex_inline = fst (projr (handle_sso_ctor ex_tr 4 4096 3 ex_st))"

definition ex_inline_st :: "nat state" where
  "ex_inline_st = snd (projr (handle_sso_ctor ex_tr 4 4096 3 ex_st))"

definition ex_far :: handle_sso where
  "ex_far = fst (projr (handle_sso_ctor ex_tr 2 4096 3 ex_st))"

definition ex_far_st :: "nat state" where
  "ex_far_st = snd (projr (handle_sso_ctor ex_tr 2 4096 3 ex_st))"

text \<open>A second heap-resident SSO handle, with its buffer at 8192, constructed after the first.\<close>

definition ex_far2 :: handle_sso where
  "ex_far2 = fst (projr (handle_sso_ctor ex_tr 2 8192 3 ex_far_st))"

definition ex_far2_st :: "nat state" where
  "ex_far2_st = snd (projr (handle_sso_ctor ex_tr 2 8192 3 ex_far_st))"

text \<open>A second inline-resident SSO handle, with its buffer at 8192, constructed after the first.\<close>

definition ex_inline2 :: handle_sso where
  "ex_inline2 = fst (projr (handle_sso_ctor ex_tr 4 8192 2 ex_inline_st))"

definition ex_inline2_st :: "nat state" where
  "ex_inline2_st = snd (projr (handle_sso_ctor ex_tr 4 8192 2 ex_inline_st))"

text \<open>
  A state in which three objects with value 5 live in foreign memory beyond the arena, the
  shared handle that adopts them with foreign handle 77 and release function 88, and the state
  after the adoption.
\<close>

definition ex_foreign_st :: "nat state" where
  "ex_foreign_st = ex_st\<lparr>mem := (\<lambda>a. if 2000000 \<le> a \<and> a < 2000024 then Some 5 else None)\<rparr>"

definition ex_F :: handle_shared where
  "ex_F = fst (handle_shared_foreign 2000000 3 77 88 ex_foreign_st)"

definition ex_F_st :: "nat state" where
  "ex_F_st = snd (handle_shared_foreign 2000000 3 77 88 ex_foreign_st)"

section \<open>Properties\<close>

subsection \<open>Basic facts about the state\<close>

lemma arena_top_pos: "1 \<le> arena_top bs"
  by (induction bs) (auto simp: arena_top_def)

lemma allocate_ptr:
  "allocate n st = Inr (b, st1) \<Longrightarrow> ptr b = arena_top (live st) \<and> byte_size b = n"
  by (auto simp: allocate_def Let_def split: if_splits)

lemma allocate_zero_ptr:
  "allocate_zero z n st = Inr (b, st1) \<Longrightarrow> ptr b = arena_top (live st) \<and> byte_size b = n"
  by (auto simp: allocate_zero_def Let_def split: if_splits)

lemma objs_emit [simp]: "objs (emit e st) = objs st"
  by (simp add: emit_def)

lemma objs_for_default [simp]: "objs (for_n k (\<lambda>i. default_construct tr (f i)) st) = objs st"
  by (induction k) (simp_all add: default_construct_def)

lemma trace_emit [simp]: "trace (emit e st) = trace st @ [e]"
  by (simp add: emit_def)

lemma mem_emit [simp]: "mem (emit e st) = mem st"
  by (simp add: emit_def)

lemma live_emit [simp]: "live (emit e st) = live st"
  by (simp add: emit_def)

lemma refcounts_emit [simp]: "refcounts (emit e st) = refcounts st"
  by (simp add: emit_def)

lemma last_id_emit [simp]: "last_id (emit e st) = last_id st"
  by (simp add: emit_def)

lemma limit_emit [simp]: "limit (emit e st) = limit st"
  by (simp add: emit_def)

subsection \<open>Construction from a size\<close>

lemma heap_ctor_ok:
  "handle_heap_ctor tr this n st = Inr st' \<Longrightarrow>
     handle_heap_size (objs st' this) = n \<and> handle_heap_is_null (objs st' this) = (n = 0)"
  by (auto simp: handle_heap_ctor_def Let_def set_obj_def handle_heap_size_def
        handle_heap_is_null_def handle_heap_default_def split: if_splits sum.splits prod.splits)

lemma heap_ctor_returns:
  "n = 0 \<or> arena_top (live st) + int (nbytes tr n) \<le> limit st \<Longrightarrow>
     \<exists>st'. handle_heap_ctor tr this n st = Inr st'"
  using arena_top_pos[of "live st"]
  by (auto simp: handle_heap_ctor_def Let_def set_obj_def allocate_def allocate_zero_def
        split: if_splits sum.splits prod.splits)

lemma sso_ctor_ok:
  "handle_sso_ctor tr N buf n st = Inr (h, st') \<Longrightarrow> buf \<noteq> 0 \<Longrightarrow>
     handle_sso_size h = n \<and> handle_sso_is_null h = (n = 0)"
  by (auto simp: handle_sso_ctor_def Let_def handle_sso_size_def handle_sso_is_null_def
        handle_sso_default_def split: if_splits sum.splits prod.splits)

lemma sso_ctor_returns:
  "n = 0 \<or> n \<le> N \<or> arena_top (live st) + int (nbytes tr n) \<le> limit st \<Longrightarrow>
     \<exists>h st'. handle_sso_ctor tr N buf n st = Inr (h, st')"
  using arena_top_pos[of "live st"]
  by (auto simp: handle_sso_ctor_def Let_def on_heap_def handle_sso_default_def allocate_def
        allocate_zero_def split: if_splits sum.splits prod.splits)

text \<open>
  C3, as stated: for every owning variant (heap, SSO, stack) and every size \<open>n \<ge> 0\<close>, the handle
  constructed from \<open>n\<close> has \<^verbatim>\<open>size() == n\<close> and \<^verbatim>\<open>is_null() == (n == 0)\<close>. The stack handle
  ignores its argument: built from \<open>n = 0\<close> with capacity 4 it reports size 4 and is not null.
\<close>

theorem C3_stack_counterexample:
  "\<not> (handle_stack_size 4 (fst (handle_stack_ctor ex_tr 4 4096 0 ex_st)) = 0
      \<and> handle_stack_is_null (fst (handle_stack_ctor ex_tr 4 4096 0 ex_st)) = ((0 :: long) = 0))"
  by (simp add: handle_stack_size_def handle_stack_is_null_def)

text \<open>
  C3, amended: a heap handle or an SSO handle constructed from \<open>n\<close> has \<^verbatim>\<open>size() == n\<close> and
  \<^verbatim>\<open>is_null() == (n == 0)\<close> whenever the constructor returns (the inline buffer of an object is
  never at the null address), and it returns whenever \<open>n = 0\<close>, the elements fit the inline
  buffer, or the arena has room for the block. A stack handle of capacity \<open>N\<close> constructed from
  any \<open>n\<close> has \<^verbatim>\<open>size() == N\<close> and is never null.
\<close>

theorem C3_construct_size_is_null:
  "(handle_heap_ctor tr this n st = Inr st1 \<longrightarrow>
      handle_heap_size (objs st1 this) = n \<and> handle_heap_is_null (objs st1 this) = (n = 0))
   \<and> (buf \<noteq> 0 \<and> handle_sso_ctor tr N buf n st = Inr (h, st2) \<longrightarrow>
      handle_sso_size h = n \<and> handle_sso_is_null h = (n = 0))
   \<and> (handle_stack_ctor tr N buf n st = (k, st3) \<longrightarrow>
      handle_stack_size N k = N \<and> \<not> handle_stack_is_null k)
   \<and> (n = 0 \<or> arena_top (live st) + int (nbytes tr n) \<le> limit st \<longrightarrow>
      (\<exists>st'. handle_heap_ctor tr this n st = Inr st'))
   \<and> (n = 0 \<or> n \<le> N \<or> arena_top (live st) + int (nbytes tr n) \<le> limit st \<longrightarrow>
      (\<exists>h' st'. handle_sso_ctor tr N buf n st = Inr (h', st')))"
proof -
  have p1: "handle_heap_ctor tr this n st = Inr st1 \<longrightarrow>
      handle_heap_size (objs st1 this) = n \<and> handle_heap_is_null (objs st1 this) = (n = 0)"
    using heap_ctor_ok by blast
  have p2: "buf \<noteq> 0 \<and> handle_sso_ctor tr N buf n st = Inr (h, st2) \<longrightarrow>
      handle_sso_size h = n \<and> handle_sso_is_null h = (n = 0)"
    using sso_ctor_ok by blast
  have p3: "handle_stack_ctor tr N buf n st = (k, st3) \<longrightarrow>
      handle_stack_size N k = N \<and> \<not> handle_stack_is_null k"
    by (simp add: handle_stack_size_def handle_stack_is_null_def)
  have p4: "n = 0 \<or> arena_top (live st) + int (nbytes tr n) \<le> limit st \<longrightarrow>
      (\<exists>st'. handle_heap_ctor tr this n st = Inr st')"
    using heap_ctor_returns by blast
  have p5: "n = 0 \<or> n \<le> N \<or> arena_top (live st) + int (nbytes tr n) \<le> limit st \<longrightarrow>
      (\<exists>h' st'. handle_sso_ctor tr N buf n st = Inr (h', st'))"
    using sso_ctor_returns by blast
  show ?thesis
    by (intro conjI p1 p2 p3 p4 p5)
qed

theorem C3_construct_size_is_null_witness:
  "handle_heap_size (objs (projr (handle_heap_ctor ex_tr 7 3 ex_st)) 7) = 3
   \<and> \<not> handle_heap_is_null (objs (projr (handle_heap_ctor ex_tr 7 3 ex_st)) 7)
   \<and> handle_sso_size (fst (projr (handle_sso_ctor ex_tr 4 4096 3 ex_st))) = 3
   \<and> \<not> handle_sso_is_null (fst (projr (handle_sso_ctor ex_tr 4 4096 3 ex_st)))
   \<and> handle_stack_size 4 (fst (handle_stack_ctor ex_tr 4 4096 3 ex_st)) = 4"
proof -
  have "\<not> isl (handle_heap_ctor ex_tr 7 3 ex_st)"
    by code_simp
  then have a: "handle_heap_ctor ex_tr 7 3 ex_st = Inr (projr (handle_heap_ctor ex_tr 7 3 ex_st))"
    by simp
  have "\<not> isl (handle_sso_ctor ex_tr 4 4096 3 ex_st)"
    by code_simp
  then have b: "handle_sso_ctor ex_tr 4 4096 3 ex_st
             = Inr (fst (projr (handle_sso_ctor ex_tr 4 4096 3 ex_st)),
                    snd (projr (handle_sso_ctor ex_tr 4 4096 3 ex_st)))"
    by simp
  have c: "handle_stack_ctor ex_tr 4 4096 3 ex_st
             = (fst (handle_stack_ctor ex_tr 4 4096 3 ex_st), snd (handle_stack_ctor ex_tr 4 4096 3 ex_st))"
    by simp
  show ?thesis
    using a b c
      C3_construct_size_is_null [of ex_tr 7 3 ex_st "projr (handle_heap_ctor ex_tr 7 3 ex_st)" 4096 4
        "fst (projr (handle_sso_ctor ex_tr 4 4096 3 ex_st))"
        "snd (projr (handle_sso_ctor ex_tr 4 4096 3 ex_st))"
        "fst (handle_stack_ctor ex_tr 4 4096 3 ex_st)"
        "snd (handle_stack_ctor ex_tr 4 4096 3 ex_st)"]
    by simp
qed

subsection \<open>Destruction\<close>

lemma trace_destroy_loop:
  "trace (for_n k (\<lambda>i. destroy (f i)) st) = trace st @ map (\<lambda>i. Destroy (f i)) [0..<k]"
  by (induction k) (simp_all add: destroy_def)

lemma refcounts_destroy_loop [simp]:
  "refcounts (for_n k (\<lambda>i. destroy (f i)) st) = refcounts st"
  by (induction k) (simp_all add: destroy_def)

lemma live_destroy_loop [simp]:
  "live (for_n k (\<lambda>i. destroy (f i)) st) = live st"
  by (induction k) (simp_all add: destroy_def)

lemma objs_destroy_loop [simp]:
  "objs (for_n k (\<lambda>i. destroy (f i)) st) = objs st"
  by (induction k) (simp_all add: destroy_def)

lemma last_id_destroy_loop [simp]:
  "last_id (for_n k (\<lambda>i. destroy (f i)) st) = last_id st"
  by (induction k) (simp_all add: destroy_def)

lemma trace_destroy_elements:
  "trace (destroy_elements tr p n st) = trace st @ destroy_events tr p n"
  by (simp add: destroy_elements_def destroy_events_def trace_destroy_loop)

lemma refcounts_destroy_elements [simp]:
  "refcounts (destroy_elements tr p n st) = refcounts st"
  by (simp add: destroy_elements_def)

lemma objs_destroy_elements [simp]:
  "objs (destroy_elements tr p n st) = objs st"
  by (simp add: destroy_elements_def)

lemma trace_deallocate_block:
  "trace (deallocate_block tr p n st) = trace st @ [Deallocate p (nbytes tr n)]"
  by (simp add: deallocate_block_def deallocate_def)

lemma refcounts_deallocate_block [simp]:
  "refcounts (deallocate_block tr p n st) = refcounts st"
  by (simp add: deallocate_block_def deallocate_def)

lemma objs_deallocate_block [simp]:
  "objs (deallocate_block tr p n st) = objs st"
  by (simp add: deallocate_block_def deallocate_def)

lemma no_release_in_destroy_events [simp]:
  "filter is_block_release (destroy_events tr p n) = []"
  by (simp add: destroy_events_def filter_map comp_def)



lemma heap_decref_unshared:
  assumes "\<not> handle_heap_is_null (objs st this)" "\<not> has_shared_memory (objs st this)"
  shows "handle_heap_decref tr this st =
           deallocate_block tr (hh_data (objs st this)) (hh_size (objs st this))
             (destroy_elements tr (hh_data (objs st this)) (hh_size (objs st this)) st)"
  using assms by (simp add: handle_heap_decref_def Let_def case_prod_beta)



lemma rtable_decref_simps [simp]:
  "fst (rtable_decref i st) = (refcounts st i = 1)"
  "trace (snd (rtable_decref i st)) = trace st @ [Rt_decref i]"
  "refcounts (snd (rtable_decref i st)) = (refcounts st)(i := refcounts st i - 1)"
  "mem (snd (rtable_decref i st)) = mem st"
  "live (snd (rtable_decref i st)) = live st"
  "objs (snd (rtable_decref i st)) = objs st"
  by (auto simp: rtable_decref_def)

subsection \<open>Promotion of a heap handle\<close>

lemma from_heap_first:
  assumes "\<not> handle_heap_is_null (objs st xr)" and "hh_id (objs st xr) = 0"
  shows "sh_id (fst (handle_shared_from_heap xr st)) = Suc (last_id st)"
    and "hh_id (objs (snd (handle_shared_from_heap xr st)) xr) = Suc (last_id st)"
    and "hh_data (objs (snd (handle_shared_from_heap xr st)) xr) = hh_data (objs st xr)"
    and "hh_size (objs (snd (handle_shared_from_heap xr st)) xr) = hh_size (objs st xr)"
    and "trace (snd (handle_shared_from_heap xr st))
           = trace st @ [Mtx_lock, Rt_get (Suc (last_id st)), Mtx_unlock, Rt_incref (Suc (last_id st))]"
    and "refcounts (snd (handle_shared_from_heap xr st)) (Suc (last_id st)) = 2"
    and "last_id (snd (handle_shared_from_heap xr st)) = Suc (last_id st)"
  using assms
  by (simp_all add: handle_shared_from_heap_def Let_def rtable_get_def set_obj_def incref_def
        rtable_incref_def)

lemma from_heap_again:
  assumes "\<not> handle_heap_is_null (objs st xr)" and "hh_id (objs st xr) \<noteq> 0"
  shows "sh_id (fst (handle_shared_from_heap xr st)) = hh_id (objs st xr)"
    and "objs (snd (handle_shared_from_heap xr st)) = objs st"
    and "trace (snd (handle_shared_from_heap xr st)) = trace st @ [Rt_incref (hh_id (objs st xr))]"
    and "refcounts (snd (handle_shared_from_heap xr st)) (hh_id (objs st xr))
           = refcounts st (hh_id (objs st xr)) + 1"
    and "last_id (snd (handle_shared_from_heap xr st)) = last_id st"
  using assms
  by (simp_all add: handle_shared_from_heap_def Let_def incref_def rtable_incref_def)


lemma from_heap_frame:
  "mem (snd (handle_shared_from_heap xr st)) = mem st"
  "live (snd (handle_shared_from_heap xr st)) = live st"
  by (simp_all add: handle_shared_from_heap_def Let_def incref_def rtable_incref_def
        rtable_get_def set_obj_def case_prod_beta)

lemma from_heap_null:
  assumes "handle_heap_is_null (objs st xr)"
  shows "snd (handle_shared_from_heap xr st) = st"
    and "sh_id (fst (handle_shared_from_heap xr st)) = 0"
  using assms
  by (simp_all add: handle_shared_from_heap_def Let_def handle_shared_default_def)

text \<open>
  C1, as stated: cross-constructing a shared handle from a heap handle whose id field is 0
  registers a fresh id, writes it into the heap handle and increments its count. A null heap
  handle has id 0, and the constructor returns before it touches the table: no id is
  registered, none is written, nothing is incremented.
\<close>

theorem C1_null_counterexample:
  "hh_id (objs ex_st 7) = 0
   \<and> \<not> (hh_id (objs (snd (handle_shared_from_heap 7 ex_st)) 7) \<noteq> 0
        \<or> trace (snd (handle_shared_from_heap 7 ex_st)) \<noteq> []
        \<or> last_id (snd (handle_shared_from_heap 7 ex_st)) \<noteq> last_id ex_st)"
  by code_simp

text \<open>
  C1, amended: for a heap handle that is not null and whose id field is 0, the first
  cross-construction takes the lock, gets the fresh id \<open>i\<close> from the table (non-zero, count 1),
  writes it into the heap handle's id field and increments the count to 2; a second
  cross-construction from the same heap handle registers nothing, reuses \<open>i\<close> and increments
  the count to 3. Both shared handles and the heap handle end with the id \<open>i\<close>.
\<close>

theorem C1_promotion_reuses_id:
  assumes "\<not> handle_heap_is_null (objs st xr)" and "hh_id (objs st xr) = 0"
    and "st1 = snd (handle_shared_from_heap xr st)"
    and "st2 = snd (handle_shared_from_heap xr st1)"
    and "i = Suc (last_id st)"
  shows "i \<noteq> 0
       \<and> trace st1 = trace st @ [Mtx_lock, Rt_get i, Mtx_unlock, Rt_incref i]
       \<and> hh_id (objs st1 xr) = i
       \<and> sh_id (fst (handle_shared_from_heap xr st)) = i
       \<and> refcount (fst (handle_shared_from_heap xr st)) st1 = 2
       \<and> trace st2 = trace st1 @ [Rt_incref i]
       \<and> last_id st2 = last_id st1
       \<and> hh_id (objs st2 xr) = i
       \<and> sh_id (fst (handle_shared_from_heap xr st1)) = i
       \<and> refcount (fst (handle_shared_from_heap xr st1)) st2 = 3
       \<and> refcount (fst (handle_shared_from_heap xr st)) st2 = 3"
proof -
  have nn1: "\<not> handle_heap_is_null (objs st1 xr)"
    using assms(1) from_heap_first(3)[OF assms(1,2)] by (simp add: assms(3) handle_heap_is_null_def)
  have id1: "hh_id (objs st1 xr) = i"
    using from_heap_first(2)[OF assms(1,2)] by (simp add: assms(3,5))
  then have sh1: "hh_id (objs st1 xr) \<noteq> 0"
    by (simp add: assms(5))
  note first = from_heap_first[OF assms(1,2), folded assms(3) assms(5)]
  note again = from_heap_again[OF nn1 sh1, folded assms(4), unfolded id1]
  show ?thesis
    using first again id1 by (simp add: refcount_def assms(5))
qed

theorem C1_promotion_reuses_id_witness:
  "\<not> handle_heap_is_null (objs ex_heap3 7) \<and> hh_id (objs ex_heap3 7) = 0
   \<and> sh_id (fst (handle_shared_from_heap 7 ex_heap3)) = 1
   \<and> sh_id (fst (handle_shared_from_heap 7 (snd (handle_shared_from_heap 7 ex_heap3)))) = 1
   \<and> hh_id (objs (snd (handle_shared_from_heap 7 (snd (handle_shared_from_heap 7 ex_heap3)))) 7) = 1
   \<and> refcount (fst (handle_shared_from_heap 7 ex_heap3))
        (snd (handle_shared_from_heap 7 (snd (handle_shared_from_heap 7 ex_heap3)))) = 3"
proof -
  have a: "\<not> handle_heap_is_null (objs ex_heap3 7)" and b: "hh_id (objs ex_heap3 7) = 0"
    and c: "Suc (last_id ex_heap3) = 1"
    by code_simp+
  show ?thesis
    using a b C1_promotion_reuses_id [OF a b refl refl refl] by (simp add: c)
qed

lemma heap_decref_null:
  "handle_heap_is_null (objs st this) \<Longrightarrow> handle_heap_decref tr this st = st"
  by (simp add: handle_heap_decref_def)








subsection \<open>Copies of a shared handle\<close>

lemma shared_copy_fields:
  "fst (handle_shared_copy x st) = x"
  by (simp add: handle_shared_copy_def Let_def basic_copy_def handle_shared_default_def)

lemma shared_copy_state:
  "snd (handle_shared_copy x st) = (if handle_shared_is_null x then st else rtable_incref (sh_id x) st)"
  by (simp add: handle_shared_copy_def Let_def basic_copy_def handle_shared_default_def
        handle_shared_is_null_def incref_def)

lemma shared_copy_assign_fields:
  "fst (handle_shared_copy_assign tr this x st) = x"
  by (simp add: handle_shared_copy_assign_def Let_def basic_copy_def)

lemma shared_copy_assign_state:
  "snd (handle_shared_copy_assign tr this x st) = rtable_incref (sh_id x) (handle_shared_decref tr this st)"
  by (simp add: handle_shared_copy_assign_def Let_def basic_copy_def incref_def)


lemma shared_copy_ctor_null:
  "handle_shared_is_null x \<Longrightarrow> handle_shared_copy x st = (x, st)"
  by (simp add: prod_eq_iff shared_copy_fields shared_copy_state)

text \<open>
  C2 fails in the code for the copy assignment: \<^verbatim>\<open>operator=(handle_shared const &)\<close> calls
  \<^verbatim>\<open>incref()\<close> without the null test of the copy constructor. Assigning a default-constructed
  (null) shared handle to a default-constructed one increments the count of the reserved id 0,
  on a handle that violates what \<^verbatim>\<open>incref\<close> expects in the debug build, while the copy
  constructor on the same source leaves the table alone.
\<close>

theorem C2_copy_assign_null_increments:
  "handle_shared_is_null (fst (handle_shared_copy_assign ex_tr handle_shared_default handle_shared_default ex_st))
   \<and> trace (snd (handle_shared_copy_assign ex_tr handle_shared_default handle_shared_default ex_st))
       = [Rt_incref 0]
   \<and> refcounts (snd (handle_shared_copy_assign ex_tr handle_shared_default handle_shared_default ex_st)) 0
       = refcounts ex_st 0 + 1
   \<and> \<not> incref_expects (fst (handle_shared_copy_assign ex_tr handle_shared_default handle_shared_default ex_st))
   \<and> trace (snd (handle_shared_copy handle_shared_default ex_st)) = []"
  by code_simp

subsection \<open>Release of a shared buffer\<close>









subsection \<open>Borrowed handles\<close>

text \<open>
  C7: a borrowed handle constructed from a heap handle with offset \<open>k\<close> has \<^verbatim>\<open>data()\<close> equal to
  the heap handle's \<^verbatim>\<open>data() + k\<close> (\<open>k\<close> elements further), and the construction changes
  nothing: the heap handle's data pointer, size and id, like the rest of the state, are as
  before. This holds for the constructor from a heap handle with the default allocator and for
  the one from a heap handle with any other allocator.
\<close>

theorem C7_borrowed_from_heap_frame:
  "handle_borrowed_data (fst (handle_borrowed_from_heap tr xr k st))
     = handle_heap_data (objs st xr) + sint k * int (sizeof_T tr)
   \<and> snd (handle_borrowed_from_heap tr xr k st) = st
   \<and> hh_data (objs (snd (handle_borrowed_from_heap tr xr k st)) xr) = hh_data (objs st xr)
   \<and> hh_size (objs (snd (handle_borrowed_from_heap tr xr k st)) xr) = hh_size (objs st xr)
   \<and> hh_id (objs (snd (handle_borrowed_from_heap tr xr k st)) xr) = hh_id (objs st xr)
   \<and> handle_borrowed_data (fst (handle_borrowed_from_heap_alloc tr xr k st))
     = handle_heap_data (objs st xr) + sint k * int (sizeof_T tr)
   \<and> snd (handle_borrowed_from_heap_alloc tr xr k st) = st"
  by (simp add: handle_borrowed_from_heap_def handle_borrowed_from_heap_alloc_def
        handle_borrowed_data_def ptr_add_def)

text \<open>
  C9, as stated: construction from a borrowed handle yields \<^verbatim>\<open>parent() == nullptr\<close>. The
  defaulted copy constructor copies \<^verbatim>\<open>_parent\<close>: the copy of a borrowed handle that was built
  from the heap handle at object 7 has that heap handle as its parent.
\<close>

theorem C9_copy_counterexample:
  "parent (handle_borrowed_copy (fst (handle_borrowed_from_heap ex_tr 7 0 ex_heap3))) \<noteq> None"
  by (simp add: parent_def handle_borrowed_copy_def handle_borrowed_from_heap_def)

text \<open>
  C9, amended: \<^verbatim>\<open>parent()\<close> is the address of the heap handle after construction from a heap
  handle with the default allocator; it is null after construction from a heap handle with
  another allocator, from an SSO, stack or shared handle, from a borrowed handle with an offset
  (of the same or of the non-const element type), from a raw pointer, and by default. The
  defaulted copy constructor keeps the parent of its source.
\<close>

theorem C9_parent:
  "parent (fst (handle_borrowed_from_heap tr xr k st)) = Some xr
   \<and> parent (fst (handle_borrowed_from_heap_alloc tr xr k st)) = None
   \<and> parent (handle_borrowed_from_sso tr s k) = None
   \<and> parent (handle_borrowed_from_stack tr t k) = None
   \<and> parent (handle_borrowed_from_shared tr h k) = None
   \<and> parent (handle_borrowed_offset tr b k) = None
   \<and> parent (handle_borrowed_from_nonconst tr b k) = None
   \<and> parent (handle_borrowed_ptr p) = None
   \<and> parent handle_borrowed_default = None
   \<and> parent (handle_borrowed_copy b) = parent b"
  by (simp add: parent_def handle_borrowed_from_heap_def handle_borrowed_from_heap_alloc_def
        handle_borrowed_from_sso_def handle_borrowed_from_stack_def handle_borrowed_from_shared_def
        handle_borrowed_offset_def handle_borrowed_from_nonconst_def handle_borrowed_ptr_def
        handle_borrowed_default_def handle_borrowed_copy_def)

subsection \<open>Blocks and elements\<close>

lemma nbytes_mod: "nbytes tr n = (unat n * sizeof_T tr) mod 2 ^ 64"
  by (simp add: nbytes_def unat_word_ariths unat_of_nat mod_mult_right_eq)

lemma nbytes_exact: "unat n * sizeof_T tr < 18446744073709551616 \<Longrightarrow> nbytes tr n = unat n * sizeof_T tr"
  by (simp add: nbytes_mod)

lemma owns_block_exact:
  assumes "owns_block tr p n st"
  shows "unat n * sizeof_T tr < 18446744073709551616"
proof -
  have "int (unat n * sizeof_T tr) < 18446744073709551616"
    using assms by (simp add: owns_block_def)
  then show ?thesis by linarith
qed

lemma owns_block_live: "owns_block tr p n st \<Longrightarrow> (p, unat n * sizeof_T tr) \<in> set (live st)"
  using nbytes_exact[OF owns_block_exact, of tr p n st] by (simp add: owns_block_def)

lemma arena_top_above: "(p, n) \<in> set bs \<Longrightarrow> p + int (max n 1) \<le> arena_top bs"
  by (induction bs) (auto simp: arena_top_def)

lemma elem_mono: "0 < sizeof_T tr \<Longrightarrow> i < j \<Longrightarrow> elem tr p i < elem tr p j"
  by (simp add: elem_def)

lemma elem_inj: "0 < sizeof_T tr \<Longrightarrow> elem tr p i = elem tr p j \<longleftrightarrow> i = j"
  by (auto simp: elem_def)

lemma elem_lower: "p \<le> elem tr p i"
  by (simp add: elem_def)

lemma elem_upper:
  assumes "0 < sizeof_T tr" "i < n"
  shows "elem tr p i < p + int (n * sizeof_T tr)"
proof -
  have "int i * int (sizeof_T tr) < int n * int (sizeof_T tr)"
    using assms by simp
  then show ?thesis by (simp add: elem_def)
qed

lemma separate_elems:
  assumes "separate d (m * sizeof_T tr) s (n * sizeof_T tr)" "0 < sizeof_T tr" "j < m" "i < n"
  shows "elem tr d j \<noteq> elem tr s i"
  using assms elem_upper[of tr j m d] elem_upper[of tr i n s] elem_lower[of d tr j] elem_lower[of s tr i]
  by (auto simp: separate_def)

lemma owned_below_top:
  assumes "owns_block tr p n st" "0 < sizeof_T tr" "i < unat n"
  shows "elem tr p i < arena_top (live st)"
proof -
  have "(p, unat n * sizeof_T tr) \<in> set (live st)"
    using assms(1) by (rule owns_block_live)
  then have "p + int (max (unat n * sizeof_T tr) 1) \<le> arena_top (live st)"
    by (rule arena_top_above)
  moreover have "elem tr p i < p + int (unat n * sizeof_T tr)"
    using assms(2,3) by (rule elem_upper)
  moreover have "int (unat n * sizeof_T tr) \<le> int (max (unat n * sizeof_T tr) 1)"
    by linarith
  ultimately show ?thesis by linarith
qed

subsection \<open>The copy loop\<close>

lemma mem_copy_construct_same: "mem (copy_construct a b s) a = mem s b"
  by (simp add: copy_construct_def)

lemma mem_copy_construct_other: "c \<noteq> a \<Longrightarrow> mem (copy_construct a b s) c = mem s c"
  by (simp add: copy_construct_def)

lemma copy_loop_fields [simp]:
  "live (for_n n (\<lambda>i. copy_construct (f i) (g i)) st) = live st"
  "refcounts (for_n n (\<lambda>i. copy_construct (f i) (g i)) st) = refcounts st"
  "objs (for_n n (\<lambda>i. copy_construct (f i) (g i)) st) = objs st"
  "last_id (for_n n (\<lambda>i. copy_construct (f i) (g i)) st) = last_id st"
  "limit (for_n n (\<lambda>i. copy_construct (f i) (g i)) st) = limit st"
  by (induction n) (simp_all add: copy_construct_def)

lemma copy_loop_trace:
  "trace (for_n n (\<lambda>i. copy_construct (elem tr d i) (elem tr s i)) st) = trace st @ copy_events tr d s n"
  by (induction n) (simp_all add: copy_construct_def copy_events_def)

lemma copy_loop_frame:
  "(\<And>j. j < n \<Longrightarrow> a \<noteq> f j) \<Longrightarrow> mem (for_n n (\<lambda>i. copy_construct (f i) (g i)) st) a = mem st a"
  by (induction n) (simp_all add: copy_construct_def)

lemma copy_loop_result:
  assumes inj: "\<And>i j. i < n \<Longrightarrow> j < n \<Longrightarrow> f i = f j \<Longrightarrow> i = j"
    and sep: "\<And>i j. i < n \<Longrightarrow> j < n \<Longrightarrow> f j \<noteq> g i"
    and i: "i < n"
  shows "mem (for_n n (\<lambda>i. copy_construct (f i) (g i)) st) (f i) = mem st (g i)"
  using assms
proof (induction n)
  case 0
  then show ?case by simp
next
  case (Suc n)
  let ?L = "for_n n (\<lambda>i. copy_construct (f i) (g i)) st"
  show ?case
  proof (cases "i = n")
    case True
    have "mem ?L (g n) = mem st (g n)"
    proof (rule copy_loop_frame)
      fix j assume "j < n"
      then show "g n \<noteq> f j" using Suc.prems(2)[of n j] by simp
    qed
    then show ?thesis using True by (simp add: mem_copy_construct_same)
  next
    case False
    then have lt: "i < n" using Suc.prems(3) by simp
    have ne: "f i \<noteq> f n" using Suc.prems(1)[of i n] lt by auto
    have "mem ?L (f i) = mem st (g i)"
      by (rule Suc.IH) (use Suc.prems lt in auto)
    then show ?thesis using ne by (simp add: mem_copy_construct_other)
  qed
qed

lemma copy_elems_result:
  assumes "separate d (n * sizeof_T tr) s (n * sizeof_T tr)" "0 < sizeof_T tr" "i < n"
  shows "mem (for_n n (\<lambda>i. copy_construct (elem tr d i) (elem tr s i)) st) (elem tr d i) = mem st (elem tr s i)"
    and "mem (for_n n (\<lambda>i. copy_construct (elem tr d i) (elem tr s i)) st) (elem tr s i) = mem st (elem tr s i)"
proof -
  show "mem (for_n n (\<lambda>i. copy_construct (elem tr d i) (elem tr s i)) st) (elem tr d i) = mem st (elem tr s i)"
  proof (rule copy_loop_result)
    show "\<And>i j. i < n \<Longrightarrow> j < n \<Longrightarrow> elem tr d i = elem tr d j \<Longrightarrow> i = j"
      using assms(2) by (simp add: elem_inj)
    show "\<And>i j. i < n \<Longrightarrow> j < n \<Longrightarrow> elem tr d j \<noteq> elem tr s i"
      using separate_elems[OF assms(1,2)] by blast
    show "i < n" by (rule assms(3))
  qed
  show "mem (for_n n (\<lambda>i. copy_construct (elem tr d i) (elem tr s i)) st) (elem tr s i) = mem st (elem tr s i)"
  proof (rule copy_loop_frame)
    fix j assume "j < n"
    then show "elem tr s i \<noteq> elem tr d j"
      using separate_elems[OF assms(1,2), of j i] assms(3) by simp
  qed
qed

lemma memcpy_result:
  assumes "separate d (n * sizeof_T tr) s (n * sizeof_T tr)" "0 < sizeof_T tr" "i < n"
  shows "mem (memcpy d s (n * sizeof_T tr) st) (elem tr d i) = mem st (elem tr s i)"
    and "mem (memcpy d s (n * sizeof_T tr) st) (elem tr s i) = mem st (elem tr s i)"
proof -
  have up: "elem tr d i < d + int (n * sizeof_T tr)" "elem tr s i < s + int (n * sizeof_T tr)"
    by (rule elem_upper[OF assms(2,3)])+
  have lo: "d \<le> elem tr d i" "s \<le> elem tr s i"
    by (simp_all add: elem_lower)
  show "mem (memcpy d s (n * sizeof_T tr) st) (elem tr d i) = mem st (elem tr s i)"
    using up lo by (simp add: memcpy_def) (simp add: elem_def)
  show "mem (memcpy d s (n * sizeof_T tr) st) (elem tr s i) = mem st (elem tr s i)"
    using up lo assms(1) by (auto simp: memcpy_def separate_def)
qed

subsection \<open>Cloning into a heap handle\<close>

lemma heap_uninit_result:
  assumes "handle_heap_uninit tr this n st = Inr st1"
  shows "objs st1 this = (if n = 0 then handle_heap_default
                          else \<lparr>hh_data = arena_top (live st), hh_size = n, hh_id = 0\<rparr>)"
    and "r \<noteq> this \<Longrightarrow> objs st1 r = objs st r"
    and "mem st1 = mem st"
    and "refcounts st1 = refcounts st"
    and "live st1 = (if n = 0 then live st else (arena_top (live st), nbytes tr n) # live st)"
    and "trace st1 = trace st @ (if n = 0 then [] else [Allocate (nbytes tr n) (arena_top (live st))])"
  using assms
  by (auto simp: handle_heap_uninit_def Let_def set_obj_def allocate_def
        split: if_splits sum.splits prod.splits)

lemma heap_uninit_returns:
  "n = 0 \<or> arena_top (live st) + int (nbytes tr n) \<le> limit st \<Longrightarrow>
     \<exists>st1. handle_heap_uninit tr this n st = Inr st1"
  using arena_top_pos[of "live st"]
  by (auto simp: handle_heap_uninit_def Let_def set_obj_def allocate_def)

lemma clone_into_fields [simp]:
  "objs (clone_into tr this p n st) = objs st"
  "live (clone_into tr this p n st) = live st"
  "refcounts (clone_into tr this p n st) = refcounts st"
  by (simp_all add: clone_into_def Let_def memcpy_def)

lemma clone_into_no_rtable_op:
  "filter is_rtable_op (trace (clone_into tr this p n st)) = filter is_rtable_op (trace st)"
  by (simp add: clone_into_def Let_def memcpy_def copy_loop_trace copy_events_def filter_map comp_def)

lemma clone_into_null:
  "handle_heap_is_null (objs st this) \<Longrightarrow> clone_into tr this p n st = st"
  by (simp add: clone_into_def)

lemma clone_into_mem:
  assumes q: "hh_data (objs st this) = q" "q \<noteq> 0" and n: "hh_size (objs st this) = n"
    and ex: "unat n * sizeof_T tr < 18446744073709551616"
    and sep: "separate q (unat n * sizeof_T tr) p (unat n * sizeof_T tr)"
    and sz: "0 < sizeof_T tr" and i: "i < unat n"
  shows "mem (clone_into tr this p n st) (elem tr q i) = mem st (elem tr p i)"
    and "mem (clone_into tr this p n st) (elem tr p i) = mem st (elem tr p i)"
proof -
  have c: "clone_into tr this p n st =
             (if is_trivially_copyable tr then memcpy q p (unat n * sizeof_T tr) st
              else for_n (unat n) (\<lambda>i. copy_construct (elem tr q i) (elem tr p i)) st)"
    using q n by (simp add: clone_into_def Let_def handle_heap_is_null_def nbytes_exact[OF ex])
  show "mem (clone_into tr this p n st) (elem tr q i) = mem st (elem tr p i)"
    unfolding c by (simp add: memcpy_result(1)[OF sep sz i] copy_elems_result(1)[OF sep sz i])
  show "mem (clone_into tr this p n st) (elem tr p i) = mem st (elem tr p i)"
    unfolding c by (simp add: memcpy_result(2)[OF sep sz i] copy_elems_result(2)[OF sep sz i])
qed

lemma fresh_block_separate:
  assumes "owns_block tr p n st"
  shows "separate (arena_top (live st)) (unat n * sizeof_T tr) p (unat n * sizeof_T tr)"
proof -
  have "(p, unat n * sizeof_T tr) \<in> set (live st)"
    using assms by (rule owns_block_live)
  then have "p + int (max (unat n * sizeof_T tr) 1) \<le> arena_top (live st)"
    by (rule arena_top_above)
  moreover have "int (unat n * sizeof_T tr) \<le> int (max (unat n * sizeof_T tr) 1)"
    by linarith
  ultimately show ?thesis
    unfolding separate_def by linarith
qed

lemma fresh_block_above:
  assumes "(p, k) \<in> set (live st)"
  shows "p < arena_top (live st)"
  using arena_top_above[OF assms] by linarith

text \<open>The clone made by either cloning constructor, from \<open>n\<close> elements at \<open>p\<close>.\<close>

lemma heap_clone:
  assumes u: "handle_heap_uninit tr this n st = Inr st1"
    and st2: "st2 = clone_into tr this p n st1"
    and p: "p \<noteq> 0" and own: "owns_block tr p n st" and sz: "0 < sizeof_T tr"
  shows "hh_size (objs st2 this) = n"
    and "hh_data (objs st2 this) \<noteq> p"
    and "hh_id (objs st2 this) = 0"
    and "i < unat n \<Longrightarrow> mem st2 (elem tr (hh_data (objs st2 this)) i) = mem st (elem tr p i)"
    and "i < unat n \<Longrightarrow> mem st2 (elem tr p i) = mem st (elem tr p i)"
proof -
  note r = heap_uninit_result[OF u]
  have top: "p < arena_top (live st)"
    using own by (auto simp: owns_block_def intro: fresh_block_above)
  show "hh_size (objs st2 this) = n"
    by (simp add: st2 r(1) handle_heap_default_def)
  show "hh_data (objs st2 this) \<noteq> p"
    using p top by (simp add: st2 r(1) handle_heap_default_def)
  show "hh_id (objs st2 this) = 0"
    by (simp add: st2 r(1) handle_heap_default_def)
  {
    assume i: "i < unat n"
    then have n0: "n \<noteq> 0" by (auto simp: unat_eq_0)
    have q: "hh_data (objs st1 this) = arena_top (live st)" "arena_top (live st) \<noteq> 0"
      and n: "hh_size (objs st1 this) = n"
      using n0 arena_top_pos[of "live st"] by (simp_all add: r(1))
    have ex: "unat n * sizeof_T tr < 18446744073709551616"
      using own by (rule owns_block_exact)
    note m = clone_into_mem[OF q n ex fresh_block_separate[OF own] sz i, folded st2]
    show "mem st2 (elem tr (hh_data (objs st2 this)) i) = mem st (elem tr p i)"
      using m(1) n0 by (simp add: st2 r(1) r(3))
    show "mem st2 (elem tr p i) = mem st (elem tr p i)"
      using m(2) by (simp add: r(3))
  }
qed

subsection \<open>Copying an SSO handle\<close>

lemma separate_shrink:
  "separate d M s M' \<Longrightarrow> m \<le> M \<Longrightarrow> m' \<le> M' \<Longrightarrow> separate d m s m'"
  by (auto simp: separate_def)

lemma separate_distinct: "separate d M s M' \<Longrightarrow> 0 < M \<Longrightarrow> 0 < M' \<Longrightarrow> d \<noteq> s"
  by (auto simp: separate_def)

lemma sso_uninit_result:
  assumes "handle_sso_uninit tr N buf n st = Inr (h, st1)"
  shows "h = (if n = 0 then handle_sso_default buf
              else if N < n then \<lparr>sso_buffer = buf, sso_data = arena_top (live st), sso_size = n\<rparr>
              else \<lparr>sso_buffer = buf, sso_data = buf, sso_size = n\<rparr>)"
    and "mem st1 = mem st"
    and "trace st1 = trace st @ (if N < n then [Allocate (nbytes tr n) (arena_top (live st))] else [])"
  using assms
  by (auto simp: handle_sso_uninit_def Let_def handle_sso_default_def on_heap_def allocate_def
        split: if_splits sum.splits prod.splits)

lemma sso_copy_returns:
  "sso_size x \<le> N \<or> arena_top (live st) + int (nbytes tr (sso_size x)) \<le> limit st \<Longrightarrow>
     \<exists>h st1. handle_sso_copy tr N buf x st = Inr (h, st1)"
  using arena_top_pos[of "live st"]
  by (auto simp: handle_sso_copy_def handle_sso_uninit_def handle_sso_size_def Let_def on_heap_def
        handle_sso_default_def allocate_def)

lemma sso_copy_result:
  assumes c: "handle_sso_copy tr N buf x st = Inr (h, st1)"
    and sz: "0 < sizeof_T tr"
    and res: "inline_resident N x \<and> separate buf (unat N * sizeof_T tr) (sso_buffer x) (unat N * sizeof_T tr)
              \<or> heap_resident tr N x st"
  shows "sso_size h = sso_size x"
    and "sso_data h \<noteq> sso_data x"
    and "i < unat (sso_size x) \<Longrightarrow> mem st1 (elem tr (sso_data h) i) = mem st (elem tr (sso_data x) i)"
    and "i < unat (sso_size x) \<Longrightarrow> mem st1 (elem tr (sso_data x) i) = mem st (elem tr (sso_data x) i)"
proof -
  let ?n = "sso_size x"
  obtain h0 st0 where u: "handle_sso_uninit tr N buf ?n st = Inr (h0, st0)"
    and h: "h = h0"
    and st1: "st1 = for_n (unat (sso_size h0))
                      (\<lambda>i. copy_construct (elem tr (sso_data h0) i) (elem tr (sso_data x) i)) st0"
    using c by (auto simp: handle_sso_copy_def handle_sso_size_def split: sum.splits)
  note r = sso_uninit_result[OF u]
  have n0: "?n \<noteq> 0"
    using res by (auto simp: inline_resident_def heap_resident_def on_heap_def)
  have size: "sso_size h0 = ?n"
    using n0 by (simp add: r(1))
  have sep: "separate (sso_data h0) (unat ?n * sizeof_T tr) (sso_data x) (unat ?n * sizeof_T tr)"
  proof (cases "N < ?n")
    case True
    then have "heap_resident tr N x st"
      using res by (auto simp: inline_resident_def on_heap_def)
    then have "owns_block tr (sso_data x) ?n st"
      by (simp add: heap_resident_def)
    then show ?thesis
      using True n0 by (simp add: r(1) fresh_block_separate)
  next
    case False
    then have inl: "inline_resident N x"
      and s: "separate buf (unat N * sizeof_T tr) (sso_buffer x) (unat N * sizeof_T tr)"
      using res by (auto simp: heap_resident_def on_heap_def)
    have le: "unat ?n * sizeof_T tr \<le> unat N * sizeof_T tr"
      using False by (simp add: word_le_nat_alt not_less)
    show ?thesis
      using False n0 inl separate_shrink[OF s le le]
      by (simp add: r(1) inline_resident_def)
  qed
  have pos: "0 < unat ?n * sizeof_T tr"
    using n0 sz by (simp add: unat_gt_0)
  show "sso_size h = sso_size x"
    by (simp add: h size)
  show "sso_data h \<noteq> sso_data x"
    using separate_distinct[OF sep pos pos] by (simp add: h)
  {
    assume i: "i < unat ?n"
    note m = copy_elems_result[OF sep sz i, of st0]
    show "mem st1 (elem tr (sso_data h) i) = mem st (elem tr (sso_data x) i)"
      using m(1) by (simp add: st1 size h r(2))
    show "mem st1 (elem tr (sso_data x) i) = mem st (elem tr (sso_data x) i)"
      using m(2) by (simp add: st1 size r(2))
  }
qed

lemma heap_copy_returns:
  "hh_size (objs st xr) = 0
    \<or> arena_top (live st) + int (nbytes tr (hh_size (objs st xr))) \<le> limit st \<Longrightarrow>
     \<exists>st1. handle_heap_copy tr this xr st = Inr st1"
  using heap_uninit_returns[of "hh_size (objs st xr)" st tr this]
  by (auto simp: handle_heap_copy_def Let_def handle_heap_size_def)

lemma heap_copy_result:
  assumes c: "handle_heap_copy tr this xr st = Inr st2"
    and nn: "\<not> handle_heap_is_null (objs st xr)"
    and own: "owns_block tr (hh_data (objs st xr)) (hh_size (objs st xr)) st"
    and sz: "0 < sizeof_T tr"
  shows "hh_size (objs st2 this) = hh_size (objs st xr)"
    and "hh_data (objs st2 this) \<noteq> hh_data (objs st xr)"
    and "hh_id (objs st2 this) = 0"
    and "i < unat (hh_size (objs st xr)) \<Longrightarrow>
           mem st2 (elem tr (hh_data (objs st2 this)) i) = mem st (elem tr (hh_data (objs st xr)) i)"
    and "i < unat (hh_size (objs st xr)) \<Longrightarrow>
           mem st2 (elem tr (hh_data (objs st xr)) i) = mem st (elem tr (hh_data (objs st xr)) i)"
proof -
  obtain st1 where u: "handle_heap_uninit tr this (hh_size (objs st xr)) st = Inr st1"
    and st2: "st2 = clone_into tr this (hh_data (objs st xr)) (hh_size (objs st xr)) st1"
    using c by (auto simp: handle_heap_copy_def Let_def handle_heap_size_def handle_heap_data_def
        split: sum.splits)
  have p: "hh_data (objs st xr) \<noteq> 0"
    using nn by (simp add: handle_heap_is_null_def)
  note r = heap_clone[OF u st2 p own sz]
  show "hh_size (objs st2 this) = hh_size (objs st xr)" by (rule r(1))
  show "hh_data (objs st2 this) \<noteq> hh_data (objs st xr)" by (rule r(2))
  show "hh_id (objs st2 this) = 0" by (rule r(3))
  show "i < unat (hh_size (objs st xr)) \<Longrightarrow>
           mem st2 (elem tr (hh_data (objs st2 this)) i) = mem st (elem tr (hh_data (objs st xr)) i)"
    by (rule r(4))
  show "i < unat (hh_size (objs st xr)) \<Longrightarrow>
           mem st2 (elem tr (hh_data (objs st xr)) i) = mem st (elem tr (hh_data (objs st xr)) i)"
    by (rule r(5))
qed

text \<open>
  C6: the copy constructor of a non-null heap handle, and of a non-null SSO handle, makes a
  handle of the same size whose elements equal the elements of the source, at a data pointer
  different from the source's; the source's elements are as they were. The source owns its
  storage (a live block of the allocator, or its own inline buffer, which does not overlap the
  inline buffer of the new object). The constructor returns whenever the elements fit the
  inline buffer or the arena has room for the block.
\<close>

theorem C6_copy_is_fresh_and_equal:
  assumes sz: "0 < sizeof_T tr"
  shows "(\<not> handle_heap_is_null (objs st xr)
          \<and> owns_block tr (hh_data (objs st xr)) (hh_size (objs st xr)) st
          \<and> handle_heap_copy tr this xr st = Inr st2
         \<longrightarrow> handle_heap_size (objs st2 this) = handle_heap_size (objs st xr)
           \<and> handle_heap_data (objs st2 this) \<noteq> handle_heap_data (objs st xr)
           \<and> (\<forall>i < unat (hh_size (objs st xr)).
                 mem st2 (elem tr (handle_heap_data (objs st2 this)) i)
                   = mem st (elem tr (handle_heap_data (objs st xr)) i)
               \<and> mem st2 (elem tr (handle_heap_data (objs st xr)) i)
                   = mem st (elem tr (handle_heap_data (objs st xr)) i)))
       \<and> (\<not> handle_sso_is_null x
          \<and> (inline_resident N x
               \<and> separate buf (unat N * sizeof_T tr) (sso_buffer x) (unat N * sizeof_T tr)
             \<or> heap_resident tr N x st)
          \<and> handle_sso_copy tr N buf x st = Inr (h, st1)
         \<longrightarrow> handle_sso_size h = handle_sso_size x
           \<and> handle_sso_data h \<noteq> handle_sso_data x
           \<and> (\<forall>i < unat (sso_size x).
                 mem st1 (elem tr (handle_sso_data h) i) = mem st (elem tr (handle_sso_data x) i)
               \<and> mem st1 (elem tr (handle_sso_data x) i) = mem st (elem tr (handle_sso_data x) i)))
       \<and> (arena_top (live st) + int (nbytes tr (hh_size (objs st xr))) \<le> limit st
         \<longrightarrow> (\<exists>s'. handle_heap_copy tr this xr st = Inr s'))
       \<and> (sso_size x \<le> N \<or> arena_top (live st) + int (nbytes tr (sso_size x)) \<le> limit st
         \<longrightarrow> (\<exists>h' s'. handle_sso_copy tr N buf x st = Inr (h', s')))"
proof -
  have p1: "\<not> handle_heap_is_null (objs st xr)
          \<and> owns_block tr (hh_data (objs st xr)) (hh_size (objs st xr)) st
          \<and> handle_heap_copy tr this xr st = Inr st2
         \<longrightarrow> handle_heap_size (objs st2 this) = handle_heap_size (objs st xr)
           \<and> handle_heap_data (objs st2 this) \<noteq> handle_heap_data (objs st xr)
           \<and> (\<forall>i < unat (hh_size (objs st xr)).
                 mem st2 (elem tr (handle_heap_data (objs st2 this)) i)
                   = mem st (elem tr (handle_heap_data (objs st xr)) i)
               \<and> mem st2 (elem tr (handle_heap_data (objs st xr)) i)
                   = mem st (elem tr (handle_heap_data (objs st xr)) i))"
    using heap_copy_result[of tr this xr st st2, OF _ _ _ sz]
    by (simp add: handle_heap_size_def handle_heap_data_def)
  have p2: "\<not> handle_sso_is_null x
          \<and> (inline_resident N x
               \<and> separate buf (unat N * sizeof_T tr) (sso_buffer x) (unat N * sizeof_T tr)
             \<or> heap_resident tr N x st)
          \<and> handle_sso_copy tr N buf x st = Inr (h, st1)
         \<longrightarrow> handle_sso_size h = handle_sso_size x
           \<and> handle_sso_data h \<noteq> handle_sso_data x
           \<and> (\<forall>i < unat (sso_size x).
                 mem st1 (elem tr (handle_sso_data h) i) = mem st (elem tr (handle_sso_data x) i)
               \<and> mem st1 (elem tr (handle_sso_data x) i) = mem st (elem tr (handle_sso_data x) i))"
    using sso_copy_result[of tr N buf x st h st1, OF _ sz]
    by (simp add: handle_sso_size_def handle_sso_data_def)
  have p3: "arena_top (live st) + int (nbytes tr (hh_size (objs st xr))) \<le> limit st
         \<longrightarrow> (\<exists>s'. handle_heap_copy tr this xr st = Inr s')"
    using heap_copy_returns[of st xr tr this] by blast
  have p4: "sso_size x \<le> N \<or> arena_top (live st) + int (nbytes tr (sso_size x)) \<le> limit st
         \<longrightarrow> (\<exists>h' s'. handle_sso_copy tr N buf x st = Inr (h', s'))"
    using sso_copy_returns[of x N st tr buf] by blast
  show ?thesis
    by (intro conjI p1 p2 p3 p4)
qed

theorem C6_copy_is_fresh_and_equal_witness:
  "0 < sizeof_T ex_tr
   \<and> \<not> handle_heap_is_null (objs ex_heap3 7)
   \<and> owns_block ex_tr (hh_data (objs ex_heap3 7)) (hh_size (objs ex_heap3 7)) ex_heap3
   \<and> handle_heap_size (objs (projr (handle_heap_copy ex_tr 8 7 ex_heap3)) 8)
       = handle_heap_size (objs ex_heap3 7)
   \<and> handle_heap_data (objs (projr (handle_heap_copy ex_tr 8 7 ex_heap3)) 8)
       \<noteq> handle_heap_data (objs ex_heap3 7)
   \<and> mem (projr (handle_heap_copy ex_tr 8 7 ex_heap3))
        (elem ex_tr (handle_heap_data (objs (projr (handle_heap_copy ex_tr 8 7 ex_heap3)) 8)) 2)
       = mem ex_heap3 (elem ex_tr (handle_heap_data (objs ex_heap3 7)) 2)
   \<and> mem ex_heap3 (elem ex_tr (handle_heap_data (objs ex_heap3 7)) 2) = Some 0
   \<and> inline_resident 4 ex_inline
   \<and> handle_sso_size (fst (projr (handle_sso_copy ex_tr 4 8192 ex_inline ex_inline_st)))
       = handle_sso_size ex_inline
   \<and> handle_sso_data (fst (projr (handle_sso_copy ex_tr 4 8192 ex_inline ex_inline_st)))
       \<noteq> handle_sso_data ex_inline
   \<and> mem (snd (projr (handle_sso_copy ex_tr 4 8192 ex_inline ex_inline_st)))
        (elem ex_tr (handle_sso_data (fst (projr (handle_sso_copy ex_tr 4 8192 ex_inline ex_inline_st)))) 2)
       = mem ex_inline_st (elem ex_tr (handle_sso_data ex_inline) 2)
   \<and> mem ex_inline_st (elem ex_tr (handle_sso_data ex_inline) 2) = Some 0"
proof -
  have sz: "0 < sizeof_T ex_tr"
    by code_simp
  have a: "\<not> handle_heap_is_null (objs ex_heap3 7)"
    "owns_block ex_tr (hh_data (objs ex_heap3 7)) (hh_size (objs ex_heap3 7)) ex_heap3"
    "2 < unat (hh_size (objs ex_heap3 7))"
    "mem ex_heap3 (elem ex_tr (handle_heap_data (objs ex_heap3 7)) 2) = Some 0"
    by code_simp+
  have "\<not> isl (handle_heap_copy ex_tr 8 7 ex_heap3)"
    by code_simp
  then have b: "handle_heap_copy ex_tr 8 7 ex_heap3 = Inr (projr (handle_heap_copy ex_tr 8 7 ex_heap3))"
    by simp
  have c: "\<not> handle_sso_is_null ex_inline" "inline_resident 4 ex_inline"
    "separate 8192 (unat (4 :: size_t) * sizeof_T ex_tr) (sso_buffer ex_inline) (unat (4 :: size_t) * sizeof_T ex_tr)"
    "2 < unat (sso_size ex_inline)"
    "mem ex_inline_st (elem ex_tr (handle_sso_data ex_inline) 2) = Some 0"
    by code_simp+
  have "\<not> isl (handle_sso_copy ex_tr 4 8192 ex_inline ex_inline_st)"
    by code_simp
  then have d: "handle_sso_copy ex_tr 4 8192 ex_inline ex_inline_st
                 = Inr (fst (projr (handle_sso_copy ex_tr 4 8192 ex_inline ex_inline_st)),
                        snd (projr (handle_sso_copy ex_tr 4 8192 ex_inline ex_inline_st)))"
    by simp
  note H = C6_copy_is_fresh_and_equal [OF sz, where st = ex_heap3 and xr = 7 and this = 8
      and ?st2.0 = "projr (handle_heap_copy ex_tr 8 7 ex_heap3)"]
  note S = C6_copy_is_fresh_and_equal [OF sz, where st = ex_inline_st and x = ex_inline and N = 4
      and buf = 8192
      and h = "fst (projr (handle_sso_copy ex_tr 4 8192 ex_inline ex_inline_st))"
      and ?st1.0 = "snd (projr (handle_sso_copy ex_tr 4 8192 ex_inline ex_inline_st))"]
  have hp: "handle_heap_size (objs (projr (handle_heap_copy ex_tr 8 7 ex_heap3)) 8)
       = handle_heap_size (objs ex_heap3 7)
   \<and> handle_heap_data (objs (projr (handle_heap_copy ex_tr 8 7 ex_heap3)) 8)
       \<noteq> handle_heap_data (objs ex_heap3 7)
   \<and> mem (projr (handle_heap_copy ex_tr 8 7 ex_heap3))
        (elem ex_tr (handle_heap_data (objs (projr (handle_heap_copy ex_tr 8 7 ex_heap3)) 8)) 2)
       = mem ex_heap3 (elem ex_tr (handle_heap_data (objs ex_heap3 7)) 2)"
    using H a b by blast
  have sp: "handle_sso_size (fst (projr (handle_sso_copy ex_tr 4 8192 ex_inline ex_inline_st)))
       = handle_sso_size ex_inline
   \<and> handle_sso_data (fst (projr (handle_sso_copy ex_tr 4 8192 ex_inline ex_inline_st)))
       \<noteq> handle_sso_data ex_inline
   \<and> mem (snd (projr (handle_sso_copy ex_tr 4 8192 ex_inline ex_inline_st)))
        (elem ex_tr (handle_sso_data (fst (projr (handle_sso_copy ex_tr 4 8192 ex_inline ex_inline_st)))) 2)
       = mem ex_inline_st (elem ex_tr (handle_sso_data ex_inline) 2)"
    using S c d by blast
  show ?thesis
    using sz a c hp sp by blast
qed

subsection \<open>Destroying a clone\<close>

lemma destroy_loop_frame:
  "(\<And>j. j < k \<Longrightarrow> a \<noteq> f j) \<Longrightarrow> mem (for_n k (\<lambda>i. destroy (f i)) st) a = mem st a"
  by (induction k) (simp_all add: destroy_def)

lemma mem_deallocate_block [simp]: "mem (deallocate_block tr p n st) = mem st"
  by (simp add: deallocate_block_def deallocate_def)

lemma live_deallocate_block:
  "live (deallocate_block tr p n st) = remove1 (p, nbytes tr n) (live st)"
  by (simp add: deallocate_block_def deallocate_def)

lemma live_destroy_elements [simp]: "live (destroy_elements tr p n st) = live st"
  by (simp add: destroy_elements_def)

lemma mem_destroy_elements_frame:
  "(\<And>j. j < unat n \<Longrightarrow> a \<noteq> elem tr p j) \<Longrightarrow> mem (destroy_elements tr p n st) a = mem st a"
  by (simp add: destroy_elements_def destroy_loop_frame)

lemma heap_decref_unshared_table:
  assumes "hh_id (objs s this) = 0"
  shows "refcounts (handle_heap_decref tr this s) = refcounts s"
    and "filter is_rtable_op (trace (handle_heap_decref tr this s)) = filter is_rtable_op (trace s)"
    and "objs (handle_heap_decref tr this s) = objs s"
proof -
  have d: "handle_heap_decref tr this s =
             (if handle_heap_is_null (objs s this) then s
              else deallocate_block tr (hh_data (objs s this)) (hh_size (objs s this))
                     (destroy_elements tr (hh_data (objs s this)) (hh_size (objs s this)) s))"
    using assms by (simp add: heap_decref_null heap_decref_unshared has_shared_memory_def)
  show "refcounts (handle_heap_decref tr this s) = refcounts s"
    by (simp add: d)
  show "filter is_rtable_op (trace (handle_heap_decref tr this s)) = filter is_rtable_op (trace s)"
    by (simp add: d trace_deallocate_block trace_destroy_elements destroy_events_def filter_map
          comp_def)
  show "objs (handle_heap_decref tr this s) = objs s"
    by (simp add: d)
qed

lemma heap_uninit_no_rtable_op:
  assumes "handle_heap_uninit tr this n st = Inr st1"
  shows "filter is_rtable_op (trace st1) = filter is_rtable_op (trace st)"
  by (simp add: heap_uninit_result(6)[OF assms])

text \<open>A clone of \<open>n\<close> elements at \<open>p\<close>, made at \<open>this\<close> and then destroyed.\<close>

lemma clone_then_destroy:
  assumes u: "handle_heap_uninit tr this n st = Inr st1"
    and st2: "st2 = clone_into tr this p n st1"
    and st3: "st3 = handle_heap_decref tr this st2"
  shows "hh_id (objs st2 this) = 0"
    and "refcounts st2 = refcounts st"
    and "filter is_rtable_op (trace st2) = filter is_rtable_op (trace st)"
    and "refcounts st3 = refcounts st"
    and "filter is_rtable_op (trace st3) = filter is_rtable_op (trace st)"
    and "r \<noteq> this \<Longrightarrow> objs st3 r = objs st r"
    and "live st3 = live st"
    and "p \<noteq> 0 \<Longrightarrow> owns_block tr p n st \<Longrightarrow> 0 < sizeof_T tr \<Longrightarrow> i < unat n \<Longrightarrow>
           mem st3 (elem tr p i) = mem st (elem tr p i)"
proof -
  note r = heap_uninit_result[OF u]
  show id0: "hh_id (objs st2 this) = 0"
    by (simp add: st2 r(1) handle_heap_default_def)
  show "refcounts st2 = refcounts st"
    by (simp add: st2 r(4))
  show "filter is_rtable_op (trace st2) = filter is_rtable_op (trace st)"
    by (simp add: st2 clone_into_no_rtable_op heap_uninit_no_rtable_op[OF u])
  note t = heap_decref_unshared_table[OF id0, of tr, folded st3]
  show "refcounts st3 = refcounts st"
    by (simp add: t(1) st2 r(4))
  show "filter is_rtable_op (trace st3) = filter is_rtable_op (trace st)"
    by (simp add: t(2) st2 clone_into_no_rtable_op heap_uninit_no_rtable_op[OF u])
  show "r \<noteq> this \<Longrightarrow> objs st3 r = objs st r"
    by (simp add: t(3) st2 r(2))
  have obj: "objs st2 this = (if n = 0 then handle_heap_default
                              else \<lparr>hh_data = arena_top (live st), hh_size = n, hh_id = 0\<rparr>)"
    by (simp add: st2 r(1))
  have d: "st3 = (if n = 0 then st2
                  else deallocate_block tr (arena_top (live st)) n
                         (destroy_elements tr (arena_top (live st)) n st2))"
    using arena_top_pos[of "live st"]
    by (simp add: st3 obj heap_decref_null heap_decref_unshared has_shared_memory_def
          handle_heap_is_null_def handle_heap_default_def)
  show "live st3 = live st"
    by (simp add: d live_deallocate_block st2 r(5))
  {
    assume p: "p \<noteq> 0" and own: "owns_block tr p n st" and sz: "0 < sizeof_T tr" and i: "i < unat n"
    have below: "elem tr p i < arena_top (live st)"
      by (rule owned_below_top[OF own sz i])
    have "mem st3 (elem tr p i) = mem st2 (elem tr p i)"
    proof (cases "n = 0")
      case True
      then show ?thesis by (simp add: d)
    next
      case False
      have "mem (destroy_elements tr (arena_top (live st)) n st2) (elem tr p i) = mem st2 (elem tr p i)"
      proof (rule mem_destroy_elements_frame)
        fix j
        show "elem tr p i \<noteq> elem tr (arena_top (live st)) j"
          using below elem_lower[of "arena_top (live st)" tr j] by linarith
      qed
      then show ?thesis using False by (simp add: d)
    qed
    also have "\<dots> = mem st (elem tr p i)"
      by (rule heap_clone(5)[OF u st2 p own sz i])
    finally show "mem st3 (elem tr p i) = mem st (elem tr p i)" .
  }
qed

lemma heap_copy_unfold:
  assumes "handle_heap_copy tr this xr st = Inr st2"
  obtains st1 where "handle_heap_uninit tr this (hh_size (objs st xr)) st = Inr st1"
    and "st2 = clone_into tr this (hh_data (objs st xr)) (hh_size (objs st xr)) st1"
  using assms
  by (auto simp: handle_heap_copy_def Let_def handle_heap_size_def handle_heap_data_def
        split: sum.splits)

lemma heap_copy_shared_unfold:
  assumes "handle_heap_copy_shared tr this x st = Inr st2"
  obtains st1 where "handle_heap_uninit tr this (sh_size x) st = Inr st1"
    and "st2 = clone_into tr this (sh_data x) (sh_size x) st1"
  using assms
  by (auto simp: handle_heap_copy_shared_def handle_shared_size_def handle_shared_data_def
        split: sum.splits)

lemma heap_uninit_fits:
  assumes "handle_heap_uninit tr this n st = Inr st1" "n \<noteq> 0"
  shows "arena_top (live st) + int (nbytes tr n) \<le> limit st"
  using assms
  by (auto simp: handle_heap_uninit_def Let_def set_obj_def allocate_def
        split: if_splits sum.splits prod.splits)

lemma foreign_block_exact:
  assumes "foreign_block tr p n st"
  shows "unat n * sizeof_T tr < 18446744073709551616"
proof -
  have "int (unat n * sizeof_T tr) < 18446744073709551616"
    using assms by (simp add: foreign_block_def)
  then show ?thesis by linarith
qed

lemma source_exact:
  "owns_block tr p n st \<or> foreign_block tr p n st \<Longrightarrow> unat n * sizeof_T tr < 18446744073709551616"
  using owns_block_exact foreign_block_exact by blast

lemma source_separate:
  assumes u: "handle_heap_uninit tr this n st = Inr st1" and n0: "n \<noteq> 0"
    and src: "owns_block tr p n st \<or> foreign_block tr p n st"
  shows "separate (arena_top (live st)) (unat n * sizeof_T tr) p (unat n * sizeof_T tr)"
  using src
proof
  assume "owns_block tr p n st"
  then show ?thesis by (rule fresh_block_separate)
next
  assume f: "foreign_block tr p n st"
  have "nbytes tr n = unat n * sizeof_T tr"
    by (rule nbytes_exact[OF foreign_block_exact[OF f]])
  then have "arena_top (live st) + int (unat n * sizeof_T tr) \<le> limit st"
    using heap_uninit_fits[OF u n0] by simp
  moreover have "limit st < p"
    using f by (simp add: foreign_block_def)
  ultimately show ?thesis
    unfolding separate_def by linarith
qed

text \<open>What either cloning constructor builds from \<open>n\<close> elements at \<open>p\<close>.\<close>

lemma clone_built:
  assumes u: "handle_heap_uninit tr this n st = Inr st1"
    and st2: "st2 = clone_into tr this p n st1"
  shows "hh_size (objs st2 this) = n"
    and "handle_heap_is_null (objs st2 this) = (n = 0)"
    and "hh_id (objs st2 this) = 0"
  using arena_top_pos[of "live st"]
  by (simp_all add: st2 heap_uninit_result(1)[OF u] handle_heap_default_def handle_heap_is_null_def)

lemma clone_contents:
  assumes u: "handle_heap_uninit tr this n st = Inr st1"
    and st2: "st2 = clone_into tr this p n st1"
    and st3: "st3 = handle_heap_decref tr this st2"
    and p: "p \<noteq> 0" and src: "owns_block tr p n st \<or> foreign_block tr p n st"
    and sz: "0 < sizeof_T tr"
  shows "hh_data (objs st2 this) \<noteq> p"
    and "i < unat n \<Longrightarrow> mem st2 (elem tr (hh_data (objs st2 this)) i) = mem st (elem tr p i)"
    and "i < unat n \<Longrightarrow> mem st2 (elem tr p i) = mem st (elem tr p i)"
    and "i < unat n \<Longrightarrow> mem st3 (elem tr p i) = mem st (elem tr p i)"
proof -
  note r = heap_uninit_result[OF u]
  let ?q = "arena_top (live st)"
  have obj: "objs st2 this = (if n = 0 then handle_heap_default
                              else \<lparr>hh_data = ?q, hh_size = n, hh_id = 0\<rparr>)"
    by (simp add: st2 r(1))
  show "hh_data (objs st2 this) \<noteq> p"
  proof (cases "n = 0")
    case True
    then show ?thesis using p by (simp add: obj handle_heap_default_def)
  next
    case False
    then have pos: "0 < unat n * sizeof_T tr"
      using sz by (simp add: unat_gt_0)
    have "?q \<noteq> p"
      by (rule separate_distinct[OF source_separate[OF u False src] pos pos])
    then show ?thesis using False by (simp add: obj)
  qed
  {
    assume i: "i < unat n"
    then have n0: "n \<noteq> 0" by (auto simp: unat_eq_0)
    note sep = source_separate[OF u n0 src]
    have q: "hh_data (objs st1 this) = ?q" "?q \<noteq> 0"
      and n: "hh_size (objs st1 this) = n"
      using n0 arena_top_pos[of "live st"] by (simp_all add: r(1))
    note m = clone_into_mem[OF q n source_exact[OF src] sep sz i, folded st2]
    show c: "mem st2 (elem tr (hh_data (objs st2 this)) i) = mem st (elem tr p i)"
      using m(1) n0 by (simp add: obj r(3))
    show k: "mem st2 (elem tr p i) = mem st (elem tr p i)"
      using m(2) by (simp add: r(3))
    have d: "st3 = deallocate_block tr ?q n (destroy_elements tr ?q n st2)"
      using n0 arena_top_pos[of "live st"]
      by (simp add: st3 obj heap_decref_unshared has_shared_memory_def handle_heap_is_null_def)
    have "mem (destroy_elements tr ?q n st2) (elem tr p i) = mem st2 (elem tr p i)"
    proof (rule mem_destroy_elements_frame)
      fix j assume "j < unat n"
      then show "elem tr p i \<noteq> elem tr ?q j"
        using separate_elems[OF sep sz _ i, of j] by simp
    qed
    then show "mem st3 (elem tr p i) = mem st (elem tr p i)"
      using k by (simp add: d)
  }
qed

lemma heap_copy_shared_returns:
  "sh_size x = 0 \<or> arena_top (live st) + int (nbytes tr (sh_size x)) \<le> limit st \<Longrightarrow>
     \<exists>st1. handle_heap_copy_shared tr this x st = Inr st1"
  using heap_uninit_returns[of "sh_size x" st tr this]
  by (auto simp: handle_heap_copy_shared_def handle_shared_size_def)

text \<open>
  C8: the heap handle made by either cloning constructor (from a heap handle or from a shared
  handle) is a clone with id 0, whatever the id of the source: it has the size of the source, it
  is null exactly when that size is 0, its data pointer differs from the source's, and its
  elements equal the source's. Neither the construction nor the destruction of the clone
  performs an operation on the reference-count table, and the counts are as before. After the
  clone has been destroyed, every other heap handle object (the source with its id among them)
  is unchanged, the live blocks are those from before the copy, and the elements of the source
  are as they were. The statements about elements are for a source that owns a live block or,
  for a shared handle, one whose buffer is foreign memory. The constructors return whenever the
  size is 0 or the arena has room for the block.
\<close>

theorem C8_heap_copy_is_unshared:
  "(handle_heap_copy tr this xr st = Inr st2 \<longrightarrow>
      hh_id (objs st2 this) = 0
      \<and> handle_heap_size (objs st2 this) = handle_heap_size (objs st xr)
      \<and> handle_heap_is_null (objs st2 this) = (handle_heap_size (objs st xr) = 0)
      \<and> filter is_rtable_op (trace (handle_heap_decref tr this st2)) = filter is_rtable_op (trace st)
      \<and> refcounts (handle_heap_decref tr this st2) = refcounts st
      \<and> live (handle_heap_decref tr this st2) = live st
      \<and> (this \<noteq> xr \<longrightarrow> objs (handle_heap_decref tr this st2) xr = objs st xr)
      \<and> (0 < sizeof_T tr \<and> \<not> handle_heap_is_null (objs st xr)
           \<and> owns_block tr (hh_data (objs st xr)) (hh_size (objs st xr)) st
         \<longrightarrow> handle_heap_data (objs st2 this) \<noteq> handle_heap_data (objs st xr)
           \<and> (\<forall>i < unat (hh_size (objs st xr)).
                mem st2 (elem tr (handle_heap_data (objs st2 this)) i)
                  = mem st (elem tr (hh_data (objs st xr)) i)
                \<and> mem (handle_heap_decref tr this st2) (elem tr (hh_data (objs st xr)) i)
                  = mem st (elem tr (hh_data (objs st xr)) i))))
   \<and> (handle_heap_copy_shared tr this x st = Inr st4 \<longrightarrow>
      hh_id (objs st4 this) = 0
      \<and> handle_heap_size (objs st4 this) = handle_shared_size x
      \<and> handle_heap_is_null (objs st4 this) = (handle_shared_size x = 0)
      \<and> filter is_rtable_op (trace (handle_heap_decref tr this st4)) = filter is_rtable_op (trace st)
      \<and> refcounts (handle_heap_decref tr this st4) = refcounts st
      \<and> live (handle_heap_decref tr this st4) = live st
      \<and> (\<forall>r. r \<noteq> this \<longrightarrow> objs (handle_heap_decref tr this st4) r = objs st r)
      \<and> (0 < sizeof_T tr \<and> \<not> handle_shared_is_null x
           \<and> (owns_block tr (sh_data x) (sh_size x) st \<or> foreign_block tr (sh_data x) (sh_size x) st)
         \<longrightarrow> handle_heap_data (objs st4 this) \<noteq> handle_shared_data x
           \<and> (\<forall>i < unat (sh_size x).
                mem st4 (elem tr (handle_heap_data (objs st4 this)) i)
                  = mem st (elem tr (sh_data x) i)
                \<and> mem (handle_heap_decref tr this st4) (elem tr (sh_data x) i)
                  = mem st (elem tr (sh_data x) i))))
   \<and> (hh_size (objs st xr) = 0
        \<or> arena_top (live st) + int (nbytes tr (hh_size (objs st xr))) \<le> limit st
      \<longrightarrow> (\<exists>s'. handle_heap_copy tr this xr st = Inr s'))
   \<and> (sh_size x = 0 \<or> arena_top (live st) + int (nbytes tr (sh_size x)) \<le> limit st
      \<longrightarrow> (\<exists>s'. handle_heap_copy_shared tr this x st = Inr s'))"
proof -
  have p1: "handle_heap_copy tr this xr st = Inr st2 \<longrightarrow>
      hh_id (objs st2 this) = 0
      \<and> handle_heap_size (objs st2 this) = handle_heap_size (objs st xr)
      \<and> handle_heap_is_null (objs st2 this) = (handle_heap_size (objs st xr) = 0)
      \<and> filter is_rtable_op (trace (handle_heap_decref tr this st2)) = filter is_rtable_op (trace st)
      \<and> refcounts (handle_heap_decref tr this st2) = refcounts st
      \<and> live (handle_heap_decref tr this st2) = live st
      \<and> (this \<noteq> xr \<longrightarrow> objs (handle_heap_decref tr this st2) xr = objs st xr)
      \<and> (0 < sizeof_T tr \<and> \<not> handle_heap_is_null (objs st xr)
           \<and> owns_block tr (hh_data (objs st xr)) (hh_size (objs st xr)) st
         \<longrightarrow> handle_heap_data (objs st2 this) \<noteq> handle_heap_data (objs st xr)
           \<and> (\<forall>i < unat (hh_size (objs st xr)).
                mem st2 (elem tr (handle_heap_data (objs st2 this)) i)
                  = mem st (elem tr (hh_data (objs st xr)) i)
                \<and> mem (handle_heap_decref tr this st2) (elem tr (hh_data (objs st xr)) i)
                  = mem st (elem tr (hh_data (objs st xr)) i)))"
  proof (rule impI)
    assume c: "handle_heap_copy tr this xr st = Inr st2"
    from c obtain st1 where u: "handle_heap_uninit tr this (hh_size (objs st xr)) st = Inr st1"
      and s2: "st2 = clone_into tr this (hh_data (objs st xr)) (hh_size (objs st xr)) st1"
      by (rule heap_copy_unfold)
    note r = clone_then_destroy[OF u s2 refl] and b = clone_built[OF u s2]
    have e: "0 < sizeof_T tr \<and> \<not> handle_heap_is_null (objs st xr)
           \<and> owns_block tr (hh_data (objs st xr)) (hh_size (objs st xr)) st
         \<longrightarrow> handle_heap_data (objs st2 this) \<noteq> handle_heap_data (objs st xr)
           \<and> (\<forall>i < unat (hh_size (objs st xr)).
                mem st2 (elem tr (handle_heap_data (objs st2 this)) i)
                  = mem st (elem tr (hh_data (objs st xr)) i)
                \<and> mem (handle_heap_decref tr this st2) (elem tr (hh_data (objs st xr)) i)
                  = mem st (elem tr (hh_data (objs st xr)) i))"
    proof (intro impI, elim conjE)
      assume sz: "0 < sizeof_T tr" and nn: "\<not> handle_heap_is_null (objs st xr)"
        and own: "owns_block tr (hh_data (objs st xr)) (hh_size (objs st xr)) st"
      have p: "hh_data (objs st xr) \<noteq> 0"
        using nn by (simp add: handle_heap_is_null_def)
      note k = clone_contents[OF u s2 refl p disjI1[OF own] sz]
      show "handle_heap_data (objs st2 this) \<noteq> handle_heap_data (objs st xr)
           \<and> (\<forall>i < unat (hh_size (objs st xr)).
                mem st2 (elem tr (handle_heap_data (objs st2 this)) i)
                  = mem st (elem tr (hh_data (objs st xr)) i)
                \<and> mem (handle_heap_decref tr this st2) (elem tr (hh_data (objs st xr)) i)
                  = mem st (elem tr (hh_data (objs st xr)) i))"
        using k(1,2,4) by (simp add: handle_heap_data_def)
    qed
    show "hh_id (objs st2 this) = 0
      \<and> handle_heap_size (objs st2 this) = handle_heap_size (objs st xr)
      \<and> handle_heap_is_null (objs st2 this) = (handle_heap_size (objs st xr) = 0)
      \<and> filter is_rtable_op (trace (handle_heap_decref tr this st2)) = filter is_rtable_op (trace st)
      \<and> refcounts (handle_heap_decref tr this st2) = refcounts st
      \<and> live (handle_heap_decref tr this st2) = live st
      \<and> (this \<noteq> xr \<longrightarrow> objs (handle_heap_decref tr this st2) xr = objs st xr)
      \<and> (0 < sizeof_T tr \<and> \<not> handle_heap_is_null (objs st xr)
           \<and> owns_block tr (hh_data (objs st xr)) (hh_size (objs st xr)) st
         \<longrightarrow> handle_heap_data (objs st2 this) \<noteq> handle_heap_data (objs st xr)
           \<and> (\<forall>i < unat (hh_size (objs st xr)).
                mem st2 (elem tr (handle_heap_data (objs st2 this)) i)
                  = mem st (elem tr (hh_data (objs st xr)) i)
                \<and> mem (handle_heap_decref tr this st2) (elem tr (hh_data (objs st xr)) i)
                  = mem st (elem tr (hh_data (objs st xr)) i)))"
      using r(1,4,5,7) r(6)[of xr] b(1,2) e
      by (simp add: handle_heap_size_def)
  qed
  have p2: "handle_heap_copy_shared tr this x st = Inr st4 \<longrightarrow>
      hh_id (objs st4 this) = 0
      \<and> handle_heap_size (objs st4 this) = handle_shared_size x
      \<and> handle_heap_is_null (objs st4 this) = (handle_shared_size x = 0)
      \<and> filter is_rtable_op (trace (handle_heap_decref tr this st4)) = filter is_rtable_op (trace st)
      \<and> refcounts (handle_heap_decref tr this st4) = refcounts st
      \<and> live (handle_heap_decref tr this st4) = live st
      \<and> (\<forall>r. r \<noteq> this \<longrightarrow> objs (handle_heap_decref tr this st4) r = objs st r)
      \<and> (0 < sizeof_T tr \<and> \<not> handle_shared_is_null x
           \<and> (owns_block tr (sh_data x) (sh_size x) st \<or> foreign_block tr (sh_data x) (sh_size x) st)
         \<longrightarrow> handle_heap_data (objs st4 this) \<noteq> handle_shared_data x
           \<and> (\<forall>i < unat (sh_size x).
                mem st4 (elem tr (handle_heap_data (objs st4 this)) i)
                  = mem st (elem tr (sh_data x) i)
                \<and> mem (handle_heap_decref tr this st4) (elem tr (sh_data x) i)
                  = mem st (elem tr (sh_data x) i)))"
  proof (rule impI)
    assume c: "handle_heap_copy_shared tr this x st = Inr st4"
    from c obtain st1 where u: "handle_heap_uninit tr this (sh_size x) st = Inr st1"
      and s4: "st4 = clone_into tr this (sh_data x) (sh_size x) st1"
      by (rule heap_copy_shared_unfold)
    note r = clone_then_destroy[OF u s4 refl] and b = clone_built[OF u s4]
    have e: "0 < sizeof_T tr \<and> \<not> handle_shared_is_null x
           \<and> (owns_block tr (sh_data x) (sh_size x) st \<or> foreign_block tr (sh_data x) (sh_size x) st)
         \<longrightarrow> handle_heap_data (objs st4 this) \<noteq> handle_shared_data x
           \<and> (\<forall>i < unat (sh_size x).
                mem st4 (elem tr (handle_heap_data (objs st4 this)) i)
                  = mem st (elem tr (sh_data x) i)
                \<and> mem (handle_heap_decref tr this st4) (elem tr (sh_data x) i)
                  = mem st (elem tr (sh_data x) i))"
    proof (intro impI, elim conjE)
      assume sz: "0 < sizeof_T tr" and nn: "\<not> handle_shared_is_null x"
        and src: "owns_block tr (sh_data x) (sh_size x) st \<or> foreign_block tr (sh_data x) (sh_size x) st"
      have p: "sh_data x \<noteq> 0"
        using nn by (simp add: handle_shared_is_null_def)
      note k = clone_contents[OF u s4 refl p src sz]
      show "handle_heap_data (objs st4 this) \<noteq> handle_shared_data x
           \<and> (\<forall>i < unat (sh_size x).
                mem st4 (elem tr (handle_heap_data (objs st4 this)) i)
                  = mem st (elem tr (sh_data x) i)
                \<and> mem (handle_heap_decref tr this st4) (elem tr (sh_data x) i)
                  = mem st (elem tr (sh_data x) i))"
        using k(1,2,4) by (simp add: handle_heap_data_def handle_shared_data_def)
    qed
    show "hh_id (objs st4 this) = 0
      \<and> handle_heap_size (objs st4 this) = handle_shared_size x
      \<and> handle_heap_is_null (objs st4 this) = (handle_shared_size x = 0)
      \<and> filter is_rtable_op (trace (handle_heap_decref tr this st4)) = filter is_rtable_op (trace st)
      \<and> refcounts (handle_heap_decref tr this st4) = refcounts st
      \<and> live (handle_heap_decref tr this st4) = live st
      \<and> (\<forall>r. r \<noteq> this \<longrightarrow> objs (handle_heap_decref tr this st4) r = objs st r)
      \<and> (0 < sizeof_T tr \<and> \<not> handle_shared_is_null x
           \<and> (owns_block tr (sh_data x) (sh_size x) st \<or> foreign_block tr (sh_data x) (sh_size x) st)
         \<longrightarrow> handle_heap_data (objs st4 this) \<noteq> handle_shared_data x
           \<and> (\<forall>i < unat (sh_size x).
                mem st4 (elem tr (handle_heap_data (objs st4 this)) i)
                  = mem st (elem tr (sh_data x) i)
                \<and> mem (handle_heap_decref tr this st4) (elem tr (sh_data x) i)
                  = mem st (elem tr (sh_data x) i)))"
      using r(1,4,5,6,7) b(1,2) e
      by (simp add: handle_heap_size_def handle_shared_size_def)
  qed
  have p3: "hh_size (objs st xr) = 0
        \<or> arena_top (live st) + int (nbytes tr (hh_size (objs st xr))) \<le> limit st
      \<longrightarrow> (\<exists>s'. handle_heap_copy tr this xr st = Inr s')"
    using heap_copy_returns[of st xr tr this] by blast
  have p4: "sh_size x = 0 \<or> arena_top (live st) + int (nbytes tr (sh_size x)) \<le> limit st
      \<longrightarrow> (\<exists>s'. handle_heap_copy_shared tr this x st = Inr s')"
    using heap_copy_shared_returns[of x st tr this] by blast
  show ?thesis
    by (intro conjI p1 p2 p3 p4)
qed

theorem C8_heap_copy_is_unshared_witness:
  "hh_id (objs ex_promoted 7) = 1
   \<and> hh_id (objs (projr (handle_heap_copy ex_tr 8 7 ex_promoted)) 8) = 0
   \<and> handle_heap_size (objs (projr (handle_heap_copy ex_tr 8 7 ex_promoted)) 8)
       = handle_heap_size (objs ex_promoted 7)
   \<and> refcounts (handle_heap_decref ex_tr 8 (projr (handle_heap_copy ex_tr 8 7 ex_promoted)))
       = refcounts ex_promoted
   \<and> objs (handle_heap_decref ex_tr 8 (projr (handle_heap_copy ex_tr 8 7 ex_promoted))) 7
       = objs ex_promoted 7
   \<and> mem (handle_heap_decref ex_tr 8 (projr (handle_heap_copy ex_tr 8 7 ex_promoted)))
         (elem ex_tr (hh_data (objs ex_promoted 7)) 2)
       = mem ex_promoted (elem ex_tr (hh_data (objs ex_promoted 7)) 2)
   \<and> sh_id ex_S = 1
   \<and> hh_id (objs (projr (handle_heap_copy_shared ex_tr 8 ex_S ex_promoted)) 8) = 0
   \<and> handle_heap_size (objs (projr (handle_heap_copy_shared ex_tr 8 ex_S ex_promoted)) 8)
       = handle_shared_size ex_S
   \<and> handle_shared_size ex_S = 3
   \<and> handle_heap_data (objs (projr (handle_heap_copy_shared ex_tr 8 ex_S ex_promoted)) 8)
       \<noteq> handle_shared_data ex_S
   \<and> mem (projr (handle_heap_copy_shared ex_tr 8 ex_S ex_promoted))
         (elem ex_tr (handle_heap_data (objs (projr (handle_heap_copy_shared ex_tr 8 ex_S ex_promoted)) 8)) 2)
       = mem ex_promoted (elem ex_tr (sh_data ex_S) 2)
   \<and> mem ex_promoted (elem ex_tr (sh_data ex_S) 2) = Some 0
   \<and> filter is_rtable_op
        (trace (handle_heap_decref ex_tr 8 (projr (handle_heap_copy_shared ex_tr 8 ex_S ex_promoted))))
       = filter is_rtable_op (trace ex_promoted)
   \<and> mem (handle_heap_decref ex_tr 8 (projr (handle_heap_copy_shared ex_tr 8 ex_S ex_promoted)))
         (elem ex_tr (sh_data ex_S) 2)
       = mem ex_promoted (elem ex_tr (sh_data ex_S) 2)
   \<and> foreign_block ex_tr (sh_data ex_F) (sh_size ex_F) ex_F_st
   \<and> \<not> handle_heap_is_null (objs (projr (handle_heap_copy_shared ex_tr 8 ex_F ex_F_st)) 8)
   \<and> hh_id (objs (projr (handle_heap_copy_shared ex_tr 8 ex_F ex_F_st)) 8) = 0
   \<and> mem (projr (handle_heap_copy_shared ex_tr 8 ex_F ex_F_st))
         (elem ex_tr (handle_heap_data (objs (projr (handle_heap_copy_shared ex_tr 8 ex_F ex_F_st)) 8)) 2)
       = mem ex_F_st (elem ex_tr (sh_data ex_F) 2)
   \<and> mem ex_F_st (elem ex_tr (sh_data ex_F) 2) = Some 5"
proof -
  have "\<not> isl (handle_heap_copy ex_tr 8 7 ex_promoted)"
    by code_simp
  then have a: "handle_heap_copy ex_tr 8 7 ex_promoted
                 = Inr (projr (handle_heap_copy ex_tr 8 7 ex_promoted))"
    by simp
  have "\<not> isl (handle_heap_copy_shared ex_tr 8 ex_S ex_promoted)"
    by code_simp
  then have b: "handle_heap_copy_shared ex_tr 8 ex_S ex_promoted
                 = Inr (projr (handle_heap_copy_shared ex_tr 8 ex_S ex_promoted))"
    by simp
  have "\<not> isl (handle_heap_copy_shared ex_tr 8 ex_F ex_F_st)"
    by code_simp
  then have f: "handle_heap_copy_shared ex_tr 8 ex_F ex_F_st
                 = Inr (projr (handle_heap_copy_shared ex_tr 8 ex_F ex_F_st))"
    by simp
  have c: "hh_id (objs ex_promoted 7) = 1" "sh_id ex_S = 1" "(8 :: nat) \<noteq> 7"
    "0 < sizeof_T ex_tr" "\<not> handle_heap_is_null (objs ex_promoted 7)"
    "owns_block ex_tr (hh_data (objs ex_promoted 7)) (hh_size (objs ex_promoted 7)) ex_promoted"
    "2 < unat (hh_size (objs ex_promoted 7))"
    "\<not> handle_shared_is_null ex_S"
    "owns_block ex_tr (sh_data ex_S) (sh_size ex_S) ex_promoted"
    "2 < unat (sh_size ex_S)"
    "handle_shared_size ex_S = 3"
    "mem ex_promoted (elem ex_tr (sh_data ex_S) 2) = Some 0"
    by code_simp+
  have g: "\<not> handle_shared_is_null ex_F"
    "foreign_block ex_tr (sh_data ex_F) (sh_size ex_F) ex_F_st"
    "2 < unat (sh_size ex_F)"
    "handle_shared_size ex_F \<noteq> 0"
    "mem ex_F_st (elem ex_tr (sh_data ex_F) 2) = Some 5"
    by code_simp+
  note T = C8_heap_copy_is_unshared [where tr = ex_tr and this = 8 and xr = 7 and st = ex_promoted
      and ?st2.0 = "projr (handle_heap_copy ex_tr 8 7 ex_promoted)" and x = ex_S
      and ?st4.0 = "projr (handle_heap_copy_shared ex_tr 8 ex_S ex_promoted)"]
  note F = C8_heap_copy_is_unshared [where tr = ex_tr and this = 8 and st = ex_F_st and x = ex_F
      and ?st4.0 = "projr (handle_heap_copy_shared ex_tr 8 ex_F ex_F_st)"]
  have n: "hh_id (objs (projr (handle_heap_copy ex_tr 8 7 ex_promoted)) 8) = 0
   \<and> handle_heap_size (objs (projr (handle_heap_copy ex_tr 8 7 ex_promoted)) 8)
       = handle_heap_size (objs ex_promoted 7)
   \<and> refcounts (handle_heap_decref ex_tr 8 (projr (handle_heap_copy ex_tr 8 7 ex_promoted)))
       = refcounts ex_promoted
   \<and> objs (handle_heap_decref ex_tr 8 (projr (handle_heap_copy ex_tr 8 7 ex_promoted))) 7
       = objs ex_promoted 7
   \<and> mem (handle_heap_decref ex_tr 8 (projr (handle_heap_copy ex_tr 8 7 ex_promoted)))
         (elem ex_tr (hh_data (objs ex_promoted 7)) 2)
       = mem ex_promoted (elem ex_tr (hh_data (objs ex_promoted 7)) 2)
   \<and> hh_id (objs (projr (handle_heap_copy_shared ex_tr 8 ex_S ex_promoted)) 8) = 0
   \<and> handle_heap_size (objs (projr (handle_heap_copy_shared ex_tr 8 ex_S ex_promoted)) 8)
       = handle_shared_size ex_S
   \<and> handle_heap_data (objs (projr (handle_heap_copy_shared ex_tr 8 ex_S ex_promoted)) 8)
       \<noteq> handle_shared_data ex_S
   \<and> mem (projr (handle_heap_copy_shared ex_tr 8 ex_S ex_promoted))
         (elem ex_tr (handle_heap_data (objs (projr (handle_heap_copy_shared ex_tr 8 ex_S ex_promoted)) 8)) 2)
       = mem ex_promoted (elem ex_tr (sh_data ex_S) 2)
   \<and> filter is_rtable_op
        (trace (handle_heap_decref ex_tr 8 (projr (handle_heap_copy_shared ex_tr 8 ex_S ex_promoted))))
       = filter is_rtable_op (trace ex_promoted)
   \<and> mem (handle_heap_decref ex_tr 8 (projr (handle_heap_copy_shared ex_tr 8 ex_S ex_promoted)))
         (elem ex_tr (sh_data ex_S) 2)
       = mem ex_promoted (elem ex_tr (sh_data ex_S) 2)"
    using T a b c by blast
  have m: "\<not> handle_heap_is_null (objs (projr (handle_heap_copy_shared ex_tr 8 ex_F ex_F_st)) 8)
   \<and> hh_id (objs (projr (handle_heap_copy_shared ex_tr 8 ex_F ex_F_st)) 8) = 0
   \<and> mem (projr (handle_heap_copy_shared ex_tr 8 ex_F ex_F_st))
         (elem ex_tr (handle_heap_data (objs (projr (handle_heap_copy_shared ex_tr 8 ex_F ex_F_st)) 8)) 2)
       = mem ex_F_st (elem ex_tr (sh_data ex_F) 2)"
    using F f g c(4) by blast
  show ?thesis
    using n m c g by blast
qed

subsection \<open>Moving an SSO handle\<close>

lemma clean_handle: "fst (clean tr N h st) = h\<lparr>sso_data := 0\<rparr>"
  by (simp add: clean_def Let_def handle_sso_is_null_def)

lemma clean_trace: "trace (snd (clean tr N h st)) = trace st @ clean_events tr N h"
  by (simp add: clean_def Let_def clean_events_def destroy_events_def trace_destroy_loop
        deallocate_def handle_sso_data_def)

lemma clean_null: "handle_sso_is_null h \<Longrightarrow> clean tr N h st = (h, st)"
  by (simp add: clean_def)

lemma clean_mem_frame:
  assumes "\<And>j. j < unat (sso_size h) \<Longrightarrow> a \<noteq> elem tr (sso_data h) j"
  shows "mem (snd (clean tr N h st)) a = mem st a"
  using assms
  by (simp add: clean_def Let_def deallocate_def handle_sso_data_def destroy_loop_frame)

lemma take_from_source:
  "snd (fst (take_from tr N h x st)) = x\<lparr>sso_data := 0, sso_size := 0\<rparr>"
  by (simp add: take_from_def Let_def)

lemma take_from_heap:
  assumes "on_heap N x"
  shows "take_from tr N h x st
           = ((h\<lparr>sso_size := sso_size x, sso_data := sso_data x\<rparr>, x\<lparr>sso_data := 0, sso_size := 0\<rparr>), st)"
  using assms by (simp add: take_from_def Let_def on_heap_def)

lemma take_from_inline:
  assumes "inline_resident N x"
  shows "take_from tr N h x st
           = ((h\<lparr>sso_size := sso_size x, sso_data := sso_buffer h\<rparr>, x\<lparr>sso_data := 0, sso_size := 0\<rparr>),
              for_n (unat (sso_size x))
                (\<lambda>i. copy_construct (elem tr (sso_buffer h) i) (elem tr (sso_data x) i)) st)"
  using assms by (simp add: take_from_def Let_def on_heap_def inline_resident_def)

lemma inline_size_le: "inline_resident N x \<Longrightarrow> unat (sso_size x) * sizeof_T tr \<le> unat N * sizeof_T tr"
  by (simp add: inline_resident_def on_heap_def word_le_nat_alt not_less)

lemma inline_size_pos: "inline_resident N x \<Longrightarrow> 0 < sizeof_T tr \<Longrightarrow> 0 < unat (sso_size x) * sizeof_T tr"
  by (simp add: inline_resident_def unat_gt_0)

lemma take_from_inline_mem:
  assumes inl: "inline_resident N x" and sz: "0 < sizeof_T tr"
    and sep: "separate (sso_buffer h) (unat N * sizeof_T tr) (sso_buffer x) (unat N * sizeof_T tr)"
    and i: "i < unat (sso_size x)"
  shows "mem (snd (take_from tr N h x st)) (elem tr (sso_buffer h) i) = mem st (elem tr (sso_data x) i)"
    and "mem (snd (take_from tr N h x st)) (elem tr (sso_data x) i) = mem st (elem tr (sso_data x) i)"
    and "sso_buffer h \<noteq> sso_data x"
proof -
  have dx: "sso_data x = sso_buffer x"
    using inl by (simp add: inline_resident_def)
  have s: "separate (sso_buffer h) (unat (sso_size x) * sizeof_T tr) (sso_data x)
             (unat (sso_size x) * sizeof_T tr)"
    using separate_shrink[OF sep inline_size_le[OF inl] inline_size_le[OF inl]] by (simp add: dx)
  show "mem (snd (take_from tr N h x st)) (elem tr (sso_buffer h) i) = mem st (elem tr (sso_data x) i)"
    by (simp add: take_from_inline[OF inl] copy_elems_result(1)[OF s sz i])
  show "mem (snd (take_from tr N h x st)) (elem tr (sso_data x) i) = mem st (elem tr (sso_data x) i)"
    by (simp add: take_from_inline[OF inl] copy_elems_result(2)[OF s sz i])
  show "sso_buffer h \<noteq> sso_data x"
    using separate_distinct[OF s inline_size_pos[OF inl sz] inline_size_pos[OF inl sz]] .
qed

lemma move_assign_unfold:
  "handle_sso_move_assign tr N this x st
     = take_from tr N (this\<lparr>sso_data := 0\<rparr>) x (snd (clean tr N this st))"
  by (simp add: handle_sso_move_assign_def case_prod_beta clean_handle)

lemma no_copy_in_clean_events [simp]: "filter is_element_copy (clean_events tr N h) = []"
  by (simp add: clean_events_def destroy_events_def filter_map comp_def)

lemma allocator_calls_in_clean_events:
  "filter is_allocator_call (clean_events tr N h)
     = (if \<not> handle_sso_is_null h \<and> on_heap N h
        then [Deallocate (sso_data h) (nbytes tr (sso_size h))] else [])"
  by (simp add: clean_events_def destroy_events_def filter_map comp_def)

lemma no_destroy_in_copy_events [simp]: "filter is_destroy (copy_events tr d s n) = []"
  by (simp add: copy_events_def filter_map comp_def)

lemma no_allocator_call_in_copy_events [simp]: "filter is_allocator_call (copy_events tr d s n) = []"
  by (simp add: copy_events_def filter_map comp_def)

lemma move_heap_source:
  assumes "on_heap N x"
  shows "handle_sso_move tr N buf x st
           = ((\<lparr>sso_buffer = buf, sso_data = sso_data x, sso_size = sso_size x\<rparr>,
               x\<lparr>sso_data := 0, sso_size := 0\<rparr>), st)"
  by (simp add: handle_sso_move_def take_from_heap[OF assms] handle_sso_default_def)

lemma move_assign_heap_source:
  assumes "on_heap N x"
  shows "handle_sso_move_assign tr N this x st
           = ((\<lparr>sso_buffer = sso_buffer this, sso_data = sso_data x, sso_size = sso_size x\<rparr>,
               x\<lparr>sso_data := 0, sso_size := 0\<rparr>), snd (clean tr N this st))"
  by (simp add: move_assign_unfold take_from_heap[OF assms])

lemma move_inline_source:
  assumes "inline_resident N x"
  shows "fst (handle_sso_move tr N buf x st)
           = (\<lparr>sso_buffer = buf, sso_data = buf, sso_size = sso_size x\<rparr>,
              x\<lparr>sso_data := 0, sso_size := 0\<rparr>)"
    and "trace (snd (handle_sso_move tr N buf x st))
           = trace st @ copy_events tr buf (sso_data x) (unat (sso_size x))"
  by (simp_all add: handle_sso_move_def take_from_inline[OF assms] handle_sso_default_def
        copy_loop_trace)

lemma move_assign_inline_source:
  assumes "inline_resident N x"
  shows "fst (handle_sso_move_assign tr N this x st)
           = (\<lparr>sso_buffer = sso_buffer this, sso_data = sso_buffer this, sso_size = sso_size x\<rparr>,
              x\<lparr>sso_data := 0, sso_size := 0\<rparr>)"
    and "trace (snd (handle_sso_move_assign tr N this x st))
           = trace st @ clean_events tr N this
               @ copy_events tr (sso_buffer this) (sso_data x) (unat (sso_size x))"
  by (simp_all add: move_assign_unfold take_from_inline[OF assms] copy_loop_trace clean_trace)

lemma move_inline_mem:
  assumes inl: "inline_resident N x" and sz: "0 < sizeof_T tr"
    and sep: "separate buf (unat N * sizeof_T tr) (sso_buffer x) (unat N * sizeof_T tr)"
    and i: "i < unat (sso_size x)"
  shows "mem (snd (handle_sso_move tr N buf x st)) (elem tr buf i) = mem st (elem tr (sso_data x) i)"
    and "mem (snd (handle_sso_move tr N buf x st)) (elem tr (sso_data x) i) = mem st (elem tr (sso_data x) i)"
    and "buf \<noteq> sso_data x"
  using take_from_inline_mem(1,2)[where h = "handle_sso_default buf" and st = st, OF inl sz _ i]
    take_from_inline_mem(3)[where h = "handle_sso_default buf", OF inl sz _ i] sep
  by (simp_all add: handle_sso_move_def handle_sso_default_def)

lemma move_assign_inline_mem:
  assumes inl: "inline_resident N x" and sz: "0 < sizeof_T tr"
    and sep: "separate (sso_buffer this) (unat N * sizeof_T tr) (sso_buffer x) (unat N * sizeof_T tr)"
    and sep': "separate (sso_data this) (unat (sso_size this) * sizeof_T tr) (sso_buffer x)
                 (unat N * sizeof_T tr)"
    and i: "i < unat (sso_size x)"
  shows "mem (snd (handle_sso_move_assign tr N this x st)) (elem tr (sso_buffer this) i)
           = mem st (elem tr (sso_data x) i)"
    and "mem (snd (handle_sso_move_assign tr N this x st)) (elem tr (sso_data x) i)
           = mem st (elem tr (sso_data x) i)"
    and "sso_buffer this \<noteq> sso_data x"
proof -
  let ?c = "snd (clean tr N this st)"
  have dx: "sso_data x = sso_buffer x"
    using inl by (simp add: inline_resident_def)
  have s: "separate (sso_data this) (unat (sso_size this) * sizeof_T tr) (sso_data x)
             (unat (sso_size x) * sizeof_T tr)"
    using separate_shrink[OF sep' order_refl inline_size_le[OF inl]] by (simp add: dx)
  have kept: "mem ?c (elem tr (sso_data x) i) = mem st (elem tr (sso_data x) i)"
  proof (rule clean_mem_frame)
    fix j assume "j < unat (sso_size this)"
    then show "elem tr (sso_data x) i \<noteq> elem tr (sso_data this) j"
      using separate_elems[OF s sz _ i, of j] by simp
  qed
  note m = take_from_inline_mem(1,2)[where h = "this\<lparr>sso_data := 0\<rparr>" and st = ?c, OF inl sz _ i]
    take_from_inline_mem(3)[where h = "this\<lparr>sso_data := 0\<rparr>", OF inl sz _ i]
  show "mem (snd (handle_sso_move_assign tr N this x st)) (elem tr (sso_buffer this) i)
           = mem st (elem tr (sso_data x) i)"
    using m(1) sep kept by (simp add: move_assign_unfold)
  show "mem (snd (handle_sso_move_assign tr N this x st)) (elem tr (sso_data x) i)
           = mem st (elem tr (sso_data x) i)"
    using m(2) sep kept by (simp add: move_assign_unfold)
  show "sso_buffer this \<noteq> sso_data x"
    using m(3) sep by simp
qed

lemma destroy_in_clean_events:
  assumes "Destroy a \<in> set (clean_events tr N h)"
  shows "\<exists>j < unat (sso_size h). a = elem tr (sso_data h) j"
  using assms
  by (auto simp: clean_events_def destroy_events_def split: if_splits)

lemma no_destroy_of_source_in_move_assign:
  assumes inl: "inline_resident N x" and sz: "0 < sizeof_T tr"
    and sep': "separate (sso_data this) (unat (sso_size this) * sizeof_T tr) (sso_buffer x)
                 (unat N * sizeof_T tr)"
    and i: "i < unat (sso_size x)"
  shows "Destroy (elem tr (sso_data x) i)
           \<notin> set (drop (length (trace st)) (trace (snd (handle_sso_move_assign tr N this x st))))"
proof
  assume "Destroy (elem tr (sso_data x) i)
           \<in> set (drop (length (trace st)) (trace (snd (handle_sso_move_assign tr N this x st))))"
  then have "Destroy (elem tr (sso_data x) i) \<in> set (clean_events tr N this)"
    by (auto simp: move_assign_inline_source(2)[OF inl] copy_events_def)
  then obtain j where j: "j < unat (sso_size this)"
    and e: "elem tr (sso_data x) i = elem tr (sso_data this) j"
    using destroy_in_clean_events by blast
  have dx: "sso_data x = sso_buffer x"
    using inl by (simp add: inline_resident_def)
  have s: "separate (sso_data this) (unat (sso_size this) * sizeof_T tr) (sso_data x)
             (unat (sso_size x) * sizeof_T tr)"
    using separate_shrink[OF sep' order_refl inline_size_le[OF inl]] by (simp add: dx)
  show False
    using separate_elems[OF s sz j i] e by simp
qed

lemma inline_has_element: "inline_resident N x \<Longrightarrow> 0 < unat (sso_size x)"
  by (simp add: inline_resident_def unat_gt_0)

lemma move_inline_distinct:
  assumes "inline_resident N x" "0 < sizeof_T tr"
    "separate buf (unat N * sizeof_T tr) (sso_buffer x) (unat N * sizeof_T tr)"
  shows "buf \<noteq> sso_data x"
proof -
  have "separate buf (unat (sso_size x) * sizeof_T tr) (sso_buffer x) (unat (sso_size x) * sizeof_T tr)"
    by (rule separate_shrink[OF assms(3) inline_size_le[OF assms(1)] inline_size_le[OF assms(1)]])
  then have "buf \<noteq> sso_buffer x"
    by (rule separate_distinct[OF _ inline_size_pos[OF assms(1,2)] inline_size_pos[OF assms(1,2)]])
  then show ?thesis
    using assms(1) by (simp add: inline_resident_def)
qed

lemma move_assign_inline_distinct:
  assumes "inline_resident N x" "0 < sizeof_T tr"
    "separate (sso_buffer this) (unat N * sizeof_T tr) (sso_buffer x) (unat N * sizeof_T tr)"
    "separate (sso_data this) (unat (sso_size this) * sizeof_T tr) (sso_buffer x)
       (unat N * sizeof_T tr)"
  shows "sso_buffer this \<noteq> sso_data x"
  by (rule move_inline_distinct[OF assms(1,2,3)])

text \<open>
  C5, as stated: a move assignment from a heap-resident source makes zero allocator calls. The
  assignment first runs \<^verbatim>\<open>clean()\<close> on the destination; when the destination is heap-resident
  itself, that is one call of the allocator's \<^verbatim>\<open>deallocate\<close>.
\<close>

theorem C5_move_assign_counterexample:
  "on_heap 2 ex_far
   \<and> filter is_allocator_call
        (drop (length (trace ex_far2_st))
           (trace (snd (handle_sso_move_assign ex_tr 2 ex_far2 ex_far ex_far2_st))))
       = [Deallocate 25 24]"
  by code_simp

text \<open>
  C5, amended. From a heap-resident source, the move constructor takes over the source's data
  pointer and size and changes nothing in the state (no allocator call, no element copy); the
  move assignment does the same after \<^verbatim>\<open>clean()\<close> on the destination, whose events are the only
  ones: no element copy, and one deallocation exactly when the destination was heap-resident.
  From an inline-resident source, both copy-construct the source's \<open>size\<close> elements, in order,
  into the destination's own inline buffer, which is at another address than the source's
  elements, and the destination's elements equal the source's. In every case the source is left
  with a null data pointer and size 0. The two objects are different: their inline buffers do
  not overlap, and for the assignment the destination's previous elements do not overlap the
  source's buffer.
\<close>

theorem C5_sso_move_by_residency:
  "(on_heap N x \<longrightarrow>
      handle_sso_move tr N buf x st
        = ((\<lparr>sso_buffer = buf, sso_data = sso_data x, sso_size = sso_size x\<rparr>,
            x\<lparr>sso_data := 0, sso_size := 0\<rparr>), st)
      \<and> fst (handle_sso_move_assign tr N this x st)
        = (\<lparr>sso_buffer = sso_buffer this, sso_data = sso_data x, sso_size = sso_size x\<rparr>,
           x\<lparr>sso_data := 0, sso_size := 0\<rparr>)
      \<and> snd (handle_sso_move_assign tr N this x st) = snd (clean tr N this st)
      \<and> trace (snd (handle_sso_move_assign tr N this x st)) = trace st @ clean_events tr N this
      \<and> filter is_element_copy (clean_events tr N this) = []
      \<and> filter is_allocator_call (clean_events tr N this)
          = (if \<not> handle_sso_is_null this \<and> on_heap N this
             then [Deallocate (sso_data this) (nbytes tr (sso_size this))] else []))
   \<and> (inline_resident N x \<and> 0 < sizeof_T tr
        \<and> separate buf (unat N * sizeof_T tr) (sso_buffer x) (unat N * sizeof_T tr) \<longrightarrow>
      fst (handle_sso_move tr N buf x st)
        = (\<lparr>sso_buffer = buf, sso_data = buf, sso_size = sso_size x\<rparr>,
           x\<lparr>sso_data := 0, sso_size := 0\<rparr>)
      \<and> trace (snd (handle_sso_move tr N buf x st))
          = trace st @ copy_events tr buf (sso_data x) (unat (sso_size x))
      \<and> buf \<noteq> sso_data x
      \<and> (\<forall>i < unat (sso_size x).
            mem (snd (handle_sso_move tr N buf x st)) (elem tr buf i) = mem st (elem tr (sso_data x) i)))
   \<and> (inline_resident N x \<and> 0 < sizeof_T tr
        \<and> separate (sso_buffer this) (unat N * sizeof_T tr) (sso_buffer x) (unat N * sizeof_T tr)
        \<and> separate (sso_data this) (unat (sso_size this) * sizeof_T tr) (sso_buffer x)
             (unat N * sizeof_T tr) \<longrightarrow>
      fst (handle_sso_move_assign tr N this x st)
        = (\<lparr>sso_buffer = sso_buffer this, sso_data = sso_buffer this, sso_size = sso_size x\<rparr>,
           x\<lparr>sso_data := 0, sso_size := 0\<rparr>)
      \<and> trace (snd (handle_sso_move_assign tr N this x st))
          = trace st @ clean_events tr N this
              @ copy_events tr (sso_buffer this) (sso_data x) (unat (sso_size x))
      \<and> sso_buffer this \<noteq> sso_data x
      \<and> (\<forall>i < unat (sso_size x).
            mem (snd (handle_sso_move_assign tr N this x st)) (elem tr (sso_buffer this) i)
              = mem st (elem tr (sso_data x) i)))
   \<and> handle_sso_is_null (snd (fst (handle_sso_move tr N buf x st)))
   \<and> handle_sso_size (snd (fst (handle_sso_move tr N buf x st))) = 0
   \<and> handle_sso_is_null (snd (fst (handle_sso_move_assign tr N this x st)))
   \<and> handle_sso_size (snd (fst (handle_sso_move_assign tr N this x st))) = 0"
proof -
  have p1: "on_heap N x \<longrightarrow>
      handle_sso_move tr N buf x st
        = ((\<lparr>sso_buffer = buf, sso_data = sso_data x, sso_size = sso_size x\<rparr>,
            x\<lparr>sso_data := 0, sso_size := 0\<rparr>), st)
      \<and> fst (handle_sso_move_assign tr N this x st)
        = (\<lparr>sso_buffer = sso_buffer this, sso_data = sso_data x, sso_size = sso_size x\<rparr>,
           x\<lparr>sso_data := 0, sso_size := 0\<rparr>)
      \<and> snd (handle_sso_move_assign tr N this x st) = snd (clean tr N this st)
      \<and> trace (snd (handle_sso_move_assign tr N this x st)) = trace st @ clean_events tr N this
      \<and> filter is_element_copy (clean_events tr N this) = []
      \<and> filter is_allocator_call (clean_events tr N this)
          = (if \<not> handle_sso_is_null this \<and> on_heap N this
             then [Deallocate (sso_data this) (nbytes tr (sso_size this))] else [])"
    by (simp add: move_heap_source move_assign_heap_source clean_trace
          allocator_calls_in_clean_events)
  have p2: "inline_resident N x \<and> 0 < sizeof_T tr
        \<and> separate buf (unat N * sizeof_T tr) (sso_buffer x) (unat N * sizeof_T tr) \<longrightarrow>
      fst (handle_sso_move tr N buf x st)
        = (\<lparr>sso_buffer = buf, sso_data = buf, sso_size = sso_size x\<rparr>,
           x\<lparr>sso_data := 0, sso_size := 0\<rparr>)
      \<and> trace (snd (handle_sso_move tr N buf x st))
          = trace st @ copy_events tr buf (sso_data x) (unat (sso_size x))
      \<and> buf \<noteq> sso_data x
      \<and> (\<forall>i < unat (sso_size x).
            mem (snd (handle_sso_move tr N buf x st)) (elem tr buf i) = mem st (elem tr (sso_data x) i))"
    using move_inline_source[where N = N and x = x and tr = tr and buf = buf and st = st]
      move_inline_mem(1)[where N = N and x = x and tr = tr and buf = buf and st = st]
      move_inline_distinct[where N = N and x = x and tr = tr and buf = buf]
    by blast
  have p3: "inline_resident N x \<and> 0 < sizeof_T tr
        \<and> separate (sso_buffer this) (unat N * sizeof_T tr) (sso_buffer x) (unat N * sizeof_T tr)
        \<and> separate (sso_data this) (unat (sso_size this) * sizeof_T tr) (sso_buffer x)
             (unat N * sizeof_T tr) \<longrightarrow>
      fst (handle_sso_move_assign tr N this x st)
        = (\<lparr>sso_buffer = sso_buffer this, sso_data = sso_buffer this, sso_size = sso_size x\<rparr>,
           x\<lparr>sso_data := 0, sso_size := 0\<rparr>)
      \<and> trace (snd (handle_sso_move_assign tr N this x st))
          = trace st @ clean_events tr N this
              @ copy_events tr (sso_buffer this) (sso_data x) (unat (sso_size x))
      \<and> sso_buffer this \<noteq> sso_data x
      \<and> (\<forall>i < unat (sso_size x).
            mem (snd (handle_sso_move_assign tr N this x st)) (elem tr (sso_buffer this) i)
              = mem st (elem tr (sso_data x) i))"
    using move_assign_inline_source[where N = N and x = x and tr = tr and this = this and st = st]
      move_assign_inline_mem(1)[where N = N and x = x and tr = tr and this = this and st = st]
      move_assign_inline_distinct[where N = N and x = x and tr = tr and this = this]
    by blast
  have p4: "handle_sso_is_null (snd (fst (handle_sso_move tr N buf x st)))"
    and p5: "handle_sso_size (snd (fst (handle_sso_move tr N buf x st))) = 0"
    by (simp_all add: handle_sso_move_def take_from_source handle_sso_is_null_def handle_sso_size_def)
  have p6: "handle_sso_is_null (snd (fst (handle_sso_move_assign tr N this x st)))"
    and p7: "handle_sso_size (snd (fst (handle_sso_move_assign tr N this x st))) = 0"
    by (simp_all add: move_assign_unfold take_from_source handle_sso_is_null_def handle_sso_size_def)
  show ?thesis
    by (intro conjI p1 p2 p3 p4 p5 p6 p7)
qed

theorem C5_sso_move_by_residency_witness:
  "on_heap 2 ex_far
   \<and> handle_sso_move ex_tr 2 12288 ex_far ex_far2_st
       = ((\<lparr>sso_buffer = 12288, sso_data = sso_data ex_far, sso_size = sso_size ex_far\<rparr>,
           ex_far\<lparr>sso_data := 0, sso_size := 0\<rparr>), ex_far2_st)
   \<and> snd (handle_sso_move_assign ex_tr 2 ex_far2 ex_far ex_far2_st) = snd (clean ex_tr 2 ex_far2 ex_far2_st)
   \<and> inline_resident 4 ex_inline
   \<and> separate 12288 (unat (4 :: size_t) * sizeof_T ex_tr) (sso_buffer ex_inline)
         (unat (4 :: size_t) * sizeof_T ex_tr)
   \<and> trace (snd (handle_sso_move ex_tr 4 12288 ex_inline ex_inline2_st))
       = trace ex_inline2_st @ copy_events ex_tr 12288 (sso_data ex_inline) (unat (sso_size ex_inline))
   \<and> mem (snd (handle_sso_move ex_tr 4 12288 ex_inline ex_inline2_st)) (elem ex_tr 12288 2)
       = mem ex_inline2_st (elem ex_tr (sso_data ex_inline) 2)
   \<and> mem (snd (handle_sso_move_assign ex_tr 4 ex_inline2 ex_inline ex_inline2_st))
         (elem ex_tr (sso_buffer ex_inline2) 2)
       = mem ex_inline2_st (elem ex_tr (sso_data ex_inline) 2)
   \<and> mem ex_inline2_st (elem ex_tr (sso_data ex_inline) 2) = Some 0
   \<and> handle_sso_is_null (snd (fst (handle_sso_move_assign ex_tr 4 ex_inline2 ex_inline ex_inline2_st)))"
proof -
  have a: "on_heap 2 ex_far"
    by code_simp
  have b: "inline_resident 4 ex_inline" "0 < sizeof_T ex_tr"
    "separate 12288 (unat (4 :: size_t) * sizeof_T ex_tr) (sso_buffer ex_inline)
       (unat (4 :: size_t) * sizeof_T ex_tr)"
    "separate (sso_buffer ex_inline2) (unat (4 :: size_t) * sizeof_T ex_tr) (sso_buffer ex_inline)
       (unat (4 :: size_t) * sizeof_T ex_tr)"
    "separate (sso_data ex_inline2) (unat (sso_size ex_inline2) * sizeof_T ex_tr) (sso_buffer ex_inline)
       (unat (4 :: size_t) * sizeof_T ex_tr)"
    "2 < unat (sso_size ex_inline)"
    "mem ex_inline2_st (elem ex_tr (sso_data ex_inline) 2) = Some 0"
    by code_simp+
  note H = C5_sso_move_by_residency [where N = 2 and x = ex_far and tr = ex_tr and buf = 12288
      and st = ex_far2_st and this = ex_far2]
  note I = C5_sso_move_by_residency [where N = 4 and x = ex_inline and tr = ex_tr and buf = 12288
      and st = ex_inline2_st and this = ex_inline2]
  have h: "handle_sso_move ex_tr 2 12288 ex_far ex_far2_st
       = ((\<lparr>sso_buffer = 12288, sso_data = sso_data ex_far, sso_size = sso_size ex_far\<rparr>,
           ex_far\<lparr>sso_data := 0, sso_size := 0\<rparr>), ex_far2_st)
   \<and> snd (handle_sso_move_assign ex_tr 2 ex_far2 ex_far ex_far2_st) = snd (clean ex_tr 2 ex_far2 ex_far2_st)"
    using H a by blast
  have i: "trace (snd (handle_sso_move ex_tr 4 12288 ex_inline ex_inline2_st))
       = trace ex_inline2_st @ copy_events ex_tr 12288 (sso_data ex_inline) (unat (sso_size ex_inline))
   \<and> mem (snd (handle_sso_move ex_tr 4 12288 ex_inline ex_inline2_st)) (elem ex_tr 12288 2)
       = mem ex_inline2_st (elem ex_tr (sso_data ex_inline) 2)
   \<and> mem (snd (handle_sso_move_assign ex_tr 4 ex_inline2 ex_inline ex_inline2_st))
         (elem ex_tr (sso_buffer ex_inline2) 2)
       = mem ex_inline2_st (elem ex_tr (sso_data ex_inline) 2)
   \<and> handle_sso_is_null (snd (fst (handle_sso_move_assign ex_tr 4 ex_inline2 ex_inline ex_inline2_st)))"
    using I b by blast
  show ?thesis
    using a b h i by blast
qed

text \<open>
  C10: when an SSO handle is move-constructed or move-assigned from an inline-resident source
  (which holds at least one element), the source is left null with size 0, no destructor is
  called on an element of the source (the move constructor calls no destructor at all; the
  assignment only those of \<^verbatim>\<open>clean()\<close> on the destination's previous elements), the objects at
  the source's elements are as before, and the later destruction of the source does nothing.
  This holds for every element type, the non-trivial ones among them. The two objects are
  different: their inline buffers do not overlap, and for the assignment the destination's
  previous elements do not overlap the source's buffer.
\<close>

theorem C10_inline_source_elements_not_destroyed:
  assumes inl: "inline_resident N x" and sz: "0 < sizeof_T tr"
  shows "(separate buf (unat N * sizeof_T tr) (sso_buffer x) (unat N * sizeof_T tr) \<longrightarrow>
            handle_sso_is_null (snd (fst (handle_sso_move tr N buf x st)))
          \<and> handle_sso_size (snd (fst (handle_sso_move tr N buf x st))) = 0
          \<and> filter is_destroy (trace (snd (handle_sso_move tr N buf x st))) = filter is_destroy (trace st)
          \<and> (\<forall>i < unat (sso_size x).
                mem (snd (handle_sso_move tr N buf x st)) (elem tr (sso_data x) i)
                  = mem st (elem tr (sso_data x) i))
          \<and> clean tr N (snd (fst (handle_sso_move tr N buf x st))) (snd (handle_sso_move tr N buf x st))
              = (snd (fst (handle_sso_move tr N buf x st)), snd (handle_sso_move tr N buf x st)))
       \<and> (separate (sso_buffer this) (unat N * sizeof_T tr) (sso_buffer x) (unat N * sizeof_T tr)
          \<and> separate (sso_data this) (unat (sso_size this) * sizeof_T tr) (sso_buffer x)
               (unat N * sizeof_T tr) \<longrightarrow>
            handle_sso_is_null (snd (fst (handle_sso_move_assign tr N this x st)))
          \<and> handle_sso_size (snd (fst (handle_sso_move_assign tr N this x st))) = 0
          \<and> (\<forall>i < unat (sso_size x).
                Destroy (elem tr (sso_data x) i)
                  \<notin> set (drop (length (trace st)) (trace (snd (handle_sso_move_assign tr N this x st))))
                \<and> mem (snd (handle_sso_move_assign tr N this x st)) (elem tr (sso_data x) i)
                    = mem st (elem tr (sso_data x) i))
          \<and> clean tr N (snd (fst (handle_sso_move_assign tr N this x st)))
                (snd (handle_sso_move_assign tr N this x st))
              = (snd (fst (handle_sso_move_assign tr N this x st)),
                 snd (handle_sso_move_assign tr N this x st)))"
proof -
  have n1: "handle_sso_is_null (snd (fst (handle_sso_move tr N buf x st)))"
    and z1: "handle_sso_size (snd (fst (handle_sso_move tr N buf x st))) = 0"
    by (simp_all add: handle_sso_move_def take_from_source handle_sso_is_null_def handle_sso_size_def)
  have n2: "handle_sso_is_null (snd (fst (handle_sso_move_assign tr N this x st)))"
    and z2: "handle_sso_size (snd (fst (handle_sso_move_assign tr N this x st))) = 0"
    by (simp_all add: move_assign_unfold take_from_source handle_sso_is_null_def handle_sso_size_def)
  have d1: "filter is_destroy (trace (snd (handle_sso_move tr N buf x st))) = filter is_destroy (trace st)"
    by (simp add: move_inline_source(2)[OF inl])
  have p1: "separate buf (unat N * sizeof_T tr) (sso_buffer x) (unat N * sizeof_T tr) \<longrightarrow>
            handle_sso_is_null (snd (fst (handle_sso_move tr N buf x st)))
          \<and> handle_sso_size (snd (fst (handle_sso_move tr N buf x st))) = 0
          \<and> filter is_destroy (trace (snd (handle_sso_move tr N buf x st))) = filter is_destroy (trace st)
          \<and> (\<forall>i < unat (sso_size x).
                mem (snd (handle_sso_move tr N buf x st)) (elem tr (sso_data x) i)
                  = mem st (elem tr (sso_data x) i))
          \<and> clean tr N (snd (fst (handle_sso_move tr N buf x st))) (snd (handle_sso_move tr N buf x st))
              = (snd (fst (handle_sso_move tr N buf x st)), snd (handle_sso_move tr N buf x st))"
    using n1 z1 d1 clean_null[OF n1]
      move_inline_mem(2)[where N = N and x = x and tr = tr and buf = buf and st = st, OF inl sz]
    by blast
  have p2: "separate (sso_buffer this) (unat N * sizeof_T tr) (sso_buffer x) (unat N * sizeof_T tr)
          \<and> separate (sso_data this) (unat (sso_size this) * sizeof_T tr) (sso_buffer x)
               (unat N * sizeof_T tr) \<longrightarrow>
            handle_sso_is_null (snd (fst (handle_sso_move_assign tr N this x st)))
          \<and> handle_sso_size (snd (fst (handle_sso_move_assign tr N this x st))) = 0
          \<and> (\<forall>i < unat (sso_size x).
                Destroy (elem tr (sso_data x) i)
                  \<notin> set (drop (length (trace st)) (trace (snd (handle_sso_move_assign tr N this x st))))
                \<and> mem (snd (handle_sso_move_assign tr N this x st)) (elem tr (sso_data x) i)
                    = mem st (elem tr (sso_data x) i))
          \<and> clean tr N (snd (fst (handle_sso_move_assign tr N this x st)))
                (snd (handle_sso_move_assign tr N this x st))
              = (snd (fst (handle_sso_move_assign tr N this x st)),
                 snd (handle_sso_move_assign tr N this x st))"
    using n2 z2 clean_null[OF n2]
      move_assign_inline_mem(2)[where N = N and x = x and tr = tr and this = this and st = st, OF inl sz]
      no_destroy_of_source_in_move_assign[where N = N and x = x and tr = tr and this = this and st = st,
        OF inl sz]
    by blast
  show ?thesis
    by (intro conjI p1 p2)
qed

theorem C10_inline_source_elements_not_destroyed_witness:
  "inline_resident 4 ex_inline \<and> 0 < sizeof_T ex_tr \<and> \<not> is_trivial ex_tr
   \<and> handle_sso_is_null (snd (fst (handle_sso_move ex_tr 4 12288 ex_inline ex_inline2_st)))
   \<and> filter is_destroy (trace (snd (handle_sso_move ex_tr 4 12288 ex_inline ex_inline2_st)))
       = filter is_destroy (trace ex_inline2_st)
   \<and> mem (snd (handle_sso_move ex_tr 4 12288 ex_inline ex_inline2_st)) (elem ex_tr (sso_data ex_inline) 2)
       = mem ex_inline2_st (elem ex_tr (sso_data ex_inline) 2)
   \<and> mem ex_inline2_st (elem ex_tr (sso_data ex_inline) 2) = Some 0
   \<and> Destroy (elem ex_tr (sso_data ex_inline) 2)
        \<notin> set (drop (length (trace ex_inline2_st))
                 (trace (snd (handle_sso_move_assign ex_tr 4 ex_inline2 ex_inline ex_inline2_st))))
   \<and> mem (snd (handle_sso_move_assign ex_tr 4 ex_inline2 ex_inline ex_inline2_st))
         (elem ex_tr (sso_data ex_inline) 2)
       = mem ex_inline2_st (elem ex_tr (sso_data ex_inline) 2)
   \<and> clean ex_tr 4 (snd (fst (handle_sso_move_assign ex_tr 4 ex_inline2 ex_inline ex_inline2_st)))
         (snd (handle_sso_move_assign ex_tr 4 ex_inline2 ex_inline ex_inline2_st))
       = (snd (fst (handle_sso_move_assign ex_tr 4 ex_inline2 ex_inline ex_inline2_st)),
          snd (handle_sso_move_assign ex_tr 4 ex_inline2 ex_inline ex_inline2_st))"
proof -
  have a: "inline_resident 4 ex_inline" and sz: "0 < sizeof_T ex_tr"
    by code_simp+
  have b: "\<not> is_trivial ex_tr"
    "separate 12288 (unat (4 :: size_t) * sizeof_T ex_tr) (sso_buffer ex_inline)
       (unat (4 :: size_t) * sizeof_T ex_tr)"
    "separate (sso_buffer ex_inline2) (unat (4 :: size_t) * sizeof_T ex_tr) (sso_buffer ex_inline)
       (unat (4 :: size_t) * sizeof_T ex_tr)"
    "separate (sso_data ex_inline2) (unat (sso_size ex_inline2) * sizeof_T ex_tr) (sso_buffer ex_inline)
       (unat (4 :: size_t) * sizeof_T ex_tr)"
    "2 < unat (sso_size ex_inline)"
    "mem ex_inline2_st (elem ex_tr (sso_data ex_inline) 2) = Some 0"
    by code_simp+
  note T = C10_inline_source_elements_not_destroyed [OF a sz, where buf = 12288
      and st = ex_inline2_st and this = ex_inline2]
  show ?thesis
    using T a sz b by blast
qed

end
